theory Spec2Isabelle
  imports Main "HOL-Library.Sublist"
begin

section \<open>Data model of the session picker (package model)\<close>

text \<open>
  The picker is a Bubble Tea program: \<open>Update\<close> receives one message at a time and returns
  the next model together with a command. The tmux calls are made synchronously inside the
  handlers. In this development every handler returns the next model, the returned command
  and the list of calls it made to the outside world, in order. A Go panic (an index out
  of range) is the value \<open>None\<close>.

  Go strings are byte sequences: \<open>len\<close> counts bytes and slicing cuts bytes. A \<open>string\<close>
  here is the list of bytes of the Go string. Go errors are represented by their message.
\<close>

datatype Mode = ModeNormal | ModeConfirmKill | ModeCreate

text \<open>
  \<open>tmux.Window\<close> and \<open>tmux.Session\<close>: the declarations live in the tmux package; the fields
  are the ones the model package reads and writes. \<open>LastActivity\<close> is a time stamp that only
  the renderer reads.
\<close>

record Window =
  Index :: int
  WName :: string

record Session =
  Name :: string
  LastActivity :: int
  Expanded :: bool
  Windows :: "Window list"

record Item =
  IsSession :: bool
  SessionIndex :: int
  WindowIndex :: int

record Status =
  State :: string
  Timestamp :: int

record Config =
  Layout :: string
  LayoutDir :: string
  ClaudeStatusEnabled :: bool
  CacheDir :: string

text \<open>The part of \<open>textinput.Model\<close> that the picker touches.\<close>

record TextInput =
  Value :: string
  Focused :: bool
  CharLimit :: int

record Model =
  sessions :: "Session list"
  claudeStatuses :: "string \<rightharpoonup> Status"
  currentSession :: string
  cursor :: int
  items :: "Item list"
  mode :: Mode
  message :: string
  messageIsError :: bool
  input :: TextInput
  lastKeyTime :: int
  lastKey :: string
  killTarget :: string
  config :: Config
  maxNameWidth :: int
  filter_text :: string

text \<open>
  A key message. \<open>Type\<close> and \<open>Runes\<close> are the fields of \<open>tea.KeyMsg\<close> the handlers read
  (\<open>Runes\<close> already as the bytes of \<open>string(msg.Runes)\<close>); \<open>Str\<close> is the value of
  \<open>msg.String()\<close>, the text that \<open>key.Matches\<close> compares with the keys of a binding.
\<close>

datatype KeyType =
  KeyRunes | KeyBackspace | KeyEnter
| KeyCtrlN | KeyCtrlO | KeyCtrlJ | KeyCtrlK | KeyCtrlH | KeyCtrlL | KeyCtrlX | KeyCtrlY | KeyCtrlP
| KeyOther

record KeyMsg =
  Type :: KeyType
  Runes :: string
  Str :: string

datatype Msg =
  SessionsMsg "Session list"
| ErrMsg string
| ClearMessageMsg
| KeyPress KeyMsg
| OtherMsg nat

datatype Cmd =
  CmdNil
| TeaQuit
| Blink
| LoadSessions
| ClearMessageAfter nat
| Batch "Cmd list"
| InputCmd nat

text \<open>The calls that leave the controller.\<close>

datatype Effect =
  ListWindowsCall string
| SwitchClientCall string
| KillSessionCall string
| KillWindowCall string int
| CreateSessionCall string string
| StartProcessCall string

text \<open>
  \<open>ui.DefaultKeyMap\<close>: the table of bindings is declared in the ui package; it is a
  parameter here. A binding is the list of its keys.
\<close>

record KeyMap =
  Quit :: "string list"
  Cancel :: "string list"
  Up :: "string list"
  Down :: "string list"
  Expand :: "string list"
  Collapse :: "string list"
  Select :: "string list"
  Kill :: "string list"
  Create :: "string list"
  Confirm :: "string list"
  Jump1 :: "string list"
  Jump2 :: "string list"
  Jump3 :: "string list"
  Jump4 :: "string list"
  Jump5 :: "string list"
  Jump6 :: "string list"
  Jump7 :: "string list"
  Jump8 :: "string list"
  Jump9 :: "string list"

text \<open>
  Everything the controller calls but does not own: the tmux adapter (each call answers
  with an error message or a result), the process environment, the file system, the
  status cache reader, the text input widget, and the two functions of Go's \<open>strings\<close>
  package whose result depends on Unicode tables (\<open>ToLower\<close>, \<open>TrimSpace\<close>). Every theorem
  below holds for every such environment.
\<close>

record Env =
  keys :: KeyMap
  ToLower :: "string \<Rightarrow> string"
  TrimSpace :: "string \<Rightarrow> string"
  HOME :: string
  Stat :: "string \<Rightarrow> bool"
  GetStatus :: "string \<Rightarrow> string \<Rightarrow> Status"
  ListWindows :: "string \<Rightarrow> string + Window list"
  SwitchClient :: "string \<Rightarrow> string option"
  KillSession :: "string \<Rightarrow> string option"
  KillWindow :: "string \<Rightarrow> int \<Rightarrow> string option"
  CreateSession :: "string \<Rightarrow> string \<Rightarrow> string option"
  InputUpdate :: "TextInput \<Rightarrow> Msg \<Rightarrow> TextInput \<times> Cmd"

section \<open>Helpers of the Go runtime and library\<close>

text \<open>Indexing a slice: out of range is a panic.\<close>

definition elemAt :: "'a list \<Rightarrow> int \<Rightarrow> 'a option" where
  "elemAt xs i = (if 0 \<le> i \<and> i < int (length xs) then Some (xs ! nat i) else None)"

text \<open>\<open>strings.Contains\<close>: a literal, contiguous substring test on bytes.\<close>

fun Contains :: "string \<Rightarrow> string \<Rightarrow> bool" where
  "Contains [] substr = (substr = [])"
| "Contains (c # s) substr = (prefix substr (c # s) \<or> Contains s substr)"

text \<open>The verb \<open>%d\<close> of \<open>fmt.Sprintf\<close>.\<close>

fun digitsOf :: "nat \<Rightarrow> string" where
  "digitsOf n =
     (if n < 10 then [''0123456789'' ! n]
      else digitsOf (n div 10) @ [''0123456789'' ! (n mod 10)])"

definition formatInt :: "int \<Rightarrow> string" where
  "formatInt i = (if i < 0 then ''-'' @ digitsOf (nat (- i)) else digitsOf (nat i))"

text \<open>\<open>key.Matches\<close>: the key's text is one of the binding's keys.\<close>

definition Matches :: "KeyMsg \<Rightarrow> string list \<Rightarrow> bool" where
  "Matches msg binding = (Str msg \<in> set binding)"

section \<open>The controller\<close>

definition New :: "string \<Rightarrow> Config \<Rightarrow> Model" where
  "New cur cfg =
     \<lparr> sessions = [], claudeStatuses = Map.empty, currentSession = cur, cursor = 0,
       items = [], mode = ModeNormal, message = [], messageIsError = False,
       input = \<lparr> Value = [], Focused = False, CharLimit = 50 \<rparr>,
       lastKeyTime = 0, lastKey = [], killTarget = [], config = cfg,
       maxNameWidth = 0, filter_text = [] \<rparr>"

definition fuzzyMatch :: "Env \<Rightarrow> string \<Rightarrow> string \<Rightarrow> bool" where
  "fuzzyMatch e text pattern = Contains (ToLower e text) pattern"

text \<open>The inner loop of \<open>rebuildItems\<close>: one window row per window, \<open>j\<close> counting up.\<close>

fun appendWindows :: "int \<Rightarrow> Window list \<Rightarrow> int \<Rightarrow> Item list \<Rightarrow> Item list" where
  "appendWindows i [] j acc = acc"
| "appendWindows i (w # ws) j acc =
     appendWindows i ws (j + 1)
       (acc @ [\<lparr> IsSession = False, SessionIndex = i, WindowIndex = j \<rparr>])"

text \<open>The outer loop of \<open>rebuildItems\<close>, \<open>i\<close> the position of the session at hand.\<close>

fun rebuildLoop :: "Env \<Rightarrow> string \<Rightarrow> string \<Rightarrow> Session list \<Rightarrow> int \<Rightarrow> Item list \<Rightarrow> Item list" where
  "rebuildLoop e flt filterLower [] i acc = acc"
| "rebuildLoop e flt filterLower (session # rest) i acc =
     (if flt \<noteq> [] \<and> \<not> fuzzyMatch e (Name session) filterLower
      then rebuildLoop e flt filterLower rest (i + 1) acc
      else
        let acc1 = acc @ [\<lparr> IsSession = True, SessionIndex = i, WindowIndex = 0 \<rparr>];
            acc2 = (if Expanded session then appendWindows i (Windows session) 0 acc1 else acc1)
        in rebuildLoop e flt filterLower rest (i + 1) acc2)"

definition clampCursor :: "int \<Rightarrow> int \<Rightarrow> int" where
  "clampCursor c n =
     (let c1 = (if c \<ge> n then n - 1 else c) in
      if c1 < 0 then 0 else c1)"

definition rebuildItems :: "Env \<Rightarrow> Model \<Rightarrow> Model" where
  "rebuildItems e m =
     (let filterLower = ToLower e (filter_text m);
          its = rebuildLoop e (filter_text m) filterLower (sessions m) 0 []
      in m\<lparr> items := its, cursor := clampCursor (cursor m) (int (length its)) \<rparr>)"

fun loadStatuses :: "Env \<Rightarrow> string \<Rightarrow> Session list \<Rightarrow> (string \<rightharpoonup> Status) \<Rightarrow> (string \<rightharpoonup> Status)" where
  "loadStatuses e dir [] st = st"
| "loadStatuses e dir (s # ss) st =
     (let status = GetStatus e (Name s) dir in
      loadStatuses e dir ss (if State status \<noteq> [] then st(Name s \<mapsto> status) else st))"

definition loadClaudeStatuses :: "Env \<Rightarrow> Model \<Rightarrow> Model" where
  "loadClaudeStatuses e m =
     (if \<not> ClaudeStatusEnabled (config m) then m\<lparr> claudeStatuses := Map.empty \<rparr>
      else m\<lparr> claudeStatuses := loadStatuses e (CacheDir (config m)) (sessions m) Map.empty \<rparr>)"

fun maxWidth :: "Session list \<Rightarrow> int \<Rightarrow> int" where
  "maxWidth [] w = w"
| "maxWidth (s # ss) w = maxWidth ss (if int (length (Name s)) > w then int (length (Name s)) else w)"

definition calculateColumnWidths :: "Model \<Rightarrow> Model" where
  "calculateColumnWidths m = m\<lparr> maxNameWidth := maxWidth (sessions m) 0 \<rparr>"

definition switchTo :: "Env \<Rightarrow> Model \<Rightarrow> string \<Rightarrow> (Model \<times> Cmd \<times> Effect list) option" where
  "switchTo e m target =
     (case SwitchClient e target of
        Some err \<Rightarrow>
          Some (m\<lparr> message := ''Error: '' @ err, messageIsError := True \<rparr>, CmdNil,
                [SwitchClientCall target])
      | None \<Rightarrow> Some (m, TeaQuit, [SwitchClientCall target]))"

definition jumpSession :: "Env \<Rightarrow> Model \<Rightarrow> int \<Rightarrow> (Model \<times> Cmd \<times> Effect list) option" where
  "jumpSession e m num =
     (let sessionIdx = num - 1 in
      if sessionIdx \<ge> 0 \<and> sessionIdx < int (length (sessions m))
      then switchTo e m (Name (sessions m ! nat sessionIdx))
      else Some (m, CmdNil, []))"

definition handleJump :: "Env \<Rightarrow> Model \<Rightarrow> int \<Rightarrow> (Model \<times> Cmd \<times> Effect list) option" where
  "handleJump e m num =
     (if cursor m \<ge> 0 \<and> cursor m < int (length (items m)) then
        (let item = items m ! nat (cursor m) in
         case elemAt (sessions m) (SessionIndex item) of
           None \<Rightarrow> None
         | Some session \<Rightarrow>
             if Expanded session then
               (case find (\<lambda>w. Index w = num) (Windows session) of
                  Some w \<Rightarrow> switchTo e m (Name session @ '':'' @ formatInt (Index w))
                | None \<Rightarrow> jumpSession e m num)
             else jumpSession e m num)
      else jumpSession e m num)"

definition expandCurrent :: "Env \<Rightarrow> Model \<Rightarrow> (Model \<times> Effect list) option" where
  "expandCurrent e m =
     (if cursor m < 0 \<or> cursor m \<ge> int (length (items m)) then Some (m, [])
      else
        let item = items m ! nat (cursor m) in
        if \<not> IsSession item then Some (m, [])
        else
          let collapsed = map (\<lambda>s. s\<lparr> Expanded := False \<rparr>) (sessions m) in
          case elemAt collapsed (SessionIndex item) of
            None \<Rightarrow> None
          | Some session \<Rightarrow>
              if length (Windows session) = 0 then
                (case ListWindows e (Name session) of
                   Inl err \<Rightarrow>
                     Some (m\<lparr> sessions := collapsed,
                              message := ''Error loading windows: '' @ err,
                              messageIsError := True \<rparr>,
                           [ListWindowsCall (Name session)])
                 | Inr windows \<Rightarrow>
                     Some (rebuildItems e
                             (m\<lparr> sessions := collapsed[nat (SessionIndex item) :=
                                     session\<lparr> Windows := windows, Expanded := True \<rparr>] \<rparr>),
                           [ListWindowsCall (Name session)]))
              else
                Some (rebuildItems e
                        (m\<lparr> sessions := collapsed[nat (SessionIndex item) :=
                                session\<lparr> Expanded := True \<rparr>] \<rparr>),
                      []))"

text \<open>
  The search loop of \<open>collapseCurrent\<close>: the position of the first session row of the
  session, or the cursor as it was when there is none.
\<close>

fun findSessionRow :: "Item list \<Rightarrow> int \<Rightarrow> int \<Rightarrow> int \<Rightarrow> int" where
  "findSessionRow [] i sessionIdx c = c"
| "findSessionRow (it # its) i sessionIdx c =
     (if IsSession it \<and> SessionIndex it = sessionIdx then i
      else findSessionRow its (i + 1) sessionIdx c)"

definition collapseCurrent :: "Env \<Rightarrow> Model \<Rightarrow> Model option" where
  "collapseCurrent e m =
     (if cursor m < 0 \<or> cursor m \<ge> int (length (items m)) then Some m
      else
        let item = items m ! nat (cursor m);
            sessionIdx = SessionIndex item;
            m1 = (if IsSession item then m
                  else m\<lparr> cursor := findSessionRow (items m) 0 sessionIdx (cursor m) \<rparr>)
        in case elemAt (sessions m1) sessionIdx of
             None \<Rightarrow> None
           | Some session \<Rightarrow>
               Some (rebuildItems e
                       (m1\<lparr> sessions := (sessions m1)[nat sessionIdx :=
                                session\<lparr> Expanded := False \<rparr>] \<rparr>)))"

text \<open>The target of the row under the cursor: a session name or \<open>name:index\<close>.\<close>

definition rowTarget :: "Model \<Rightarrow> Item \<Rightarrow> string option" where
  "rowTarget m item =
     (if IsSession item then
        (case elemAt (sessions m) (SessionIndex item) of
           None \<Rightarrow> None
         | Some session \<Rightarrow> Some (Name session))
      else
        (case elemAt (sessions m) (SessionIndex item) of
           None \<Rightarrow> None
         | Some session \<Rightarrow>
             (case elemAt (Windows session) (WindowIndex item) of
                None \<Rightarrow> None
              | Some window \<Rightarrow> Some (Name session @ '':'' @ formatInt (Index window)))))"

definition selectCurrent :: "Env \<Rightarrow> Model \<Rightarrow> (Model \<times> Cmd \<times> Effect list) option" where
  "selectCurrent e m =
     (if cursor m < 0 \<or> cursor m \<ge> int (length (items m)) then Some (m, CmdNil, [])
      else
        case rowTarget m (items m ! nat (cursor m)) of
          None \<Rightarrow> None
        | Some target \<Rightarrow> switchTo e m target)"

definition confirmKill :: "Model \<Rightarrow> (Model \<times> Cmd \<times> Effect list) option" where
  "confirmKill m =
     (if cursor m < 0 \<or> cursor m \<ge> int (length (items m)) then Some (m, CmdNil, [])
      else
        let item = items m ! nat (cursor m) in
        case rowTarget m item of
          None \<Rightarrow> None
        | Some target \<Rightarrow>
            Some (m\<lparr> killTarget := target,
                     message := (if IsSession item then ''Kill '' else ''Kill window '')
                                @ [CHR 0x22] @ target @ [CHR 0x22] @ ''?'',
                     mode := ModeConfirmKill \<rparr>,
                  CmdNil, []))"

definition killDone :: "Model \<Rightarrow> string option \<Rightarrow> string \<Rightarrow> Model" where
  "killDone m err okMessage =
     (let m1 = (case err of None \<Rightarrow> m\<lparr> message := okMessage \<rparr>
                | Some t \<Rightarrow> m\<lparr> message := ''Error: '' @ t, messageIsError := True \<rparr>)
      in m1\<lparr> mode := ModeNormal, killTarget := [] \<rparr>)"

definition killCurrent :: "Env \<Rightarrow> Model \<Rightarrow> bool \<Rightarrow> (Model \<times> Cmd \<times> Effect list) option" where
  "killCurrent e m instant =
     (if cursor m < 0 \<or> cursor m \<ge> int (length (items m)) then Some (m, CmdNil, [])
      else
        let item = items m ! nat (cursor m) in
        case elemAt (sessions m) (SessionIndex item) of
          None \<Rightarrow> None
        | Some session \<Rightarrow>
            if IsSession item then
              Some (killDone m (KillSession e (Name session))
                      (''Killed '' @ [CHR 0x22] @ Name session @ [CHR 0x22]),
                    Batch [LoadSessions, ClearMessageAfter 5],
                    [KillSessionCall (Name session)])
            else
              (case elemAt (Windows session) (WindowIndex item) of
                 None \<Rightarrow> None
               | Some window \<Rightarrow>
                   Some (killDone m (KillWindow e (Name session) (Index window))
                           (''Killed window '' @ formatInt (Index window)),
                         Batch [LoadSessions, ClearMessageAfter 5],
                         [KillWindowCall (Name session) (Index window)])))"

definition applyLayout :: "Env \<Rightarrow> Model \<Rightarrow> string \<Rightarrow> string \<Rightarrow> Effect list" where
  "applyLayout e m sessionName workingDir =
     (if Layout (config m) = [] then []
      else
        let scriptPath = LayoutDir (config m) @ ''/'' @ Layout (config m) @ ''.sh'' in
        if \<not> Stat e scriptPath then []
        else [StartProcessCall (scriptPath @ '' '' @ sessionName @ '' '' @ workingDir)])"

definition createSession :: "Env \<Rightarrow> Model \<Rightarrow> string \<Rightarrow> (Model \<times> Cmd \<times> Effect list) option" where
  "createSession e m name =
     (let homeDir = HOME e in
      case CreateSession e name homeDir of
        Some err \<Rightarrow>
          Some (m\<lparr> message := ''Error: '' @ err, messageIsError := True, mode := ModeNormal,
                   input := (input m)\<lparr> Focused := False \<rparr> \<rparr>,
                CmdNil, [CreateSessionCall name homeDir])
      | None \<Rightarrow>
          let layout = applyLayout e m name homeDir in
          (case SwitchClient e name of
             Some err \<Rightarrow>
               Some (m\<lparr> message := ''Created but failed to switch: '' @ err,
                        messageIsError := True \<rparr>,
                     LoadSessions,
                     [CreateSessionCall name homeDir] @ layout @ [SwitchClientCall name])
           | None \<Rightarrow>
               Some (m, TeaQuit,
                     [CreateSessionCall name homeDir] @ layout @ [SwitchClientCall name])))"

definition lift :: "(Model \<times> Effect list) option \<Rightarrow> (Model \<times> Cmd \<times> Effect list) option" where
  "lift r = (case r of None \<Rightarrow> None | Some (m, fx) \<Rightarrow> Some (m, CmdNil, fx))"

definition handleNormalMode :: "Env \<Rightarrow> Model \<Rightarrow> KeyMsg \<Rightarrow> (Model \<times> Cmd \<times> Effect list) option" where
  "handleNormalMode e m msg =
     (if Matches msg (Quit (keys e)) then Some (m, TeaQuit, [])
      else if Matches msg (Cancel (keys e)) then
        (if filter_text m \<noteq> [] then Some (rebuildItems e (m\<lparr> filter_text := [] \<rparr>), CmdNil, [])
         else Some (m, TeaQuit, []))
      else if Matches msg (Up (keys e)) then
        Some (if cursor m > 0 then m\<lparr> cursor := cursor m - 1 \<rparr> else m, CmdNil, [])
      else if Matches msg (Down (keys e)) then
        Some (if cursor m < int (length (items m)) - 1 then m\<lparr> cursor := cursor m + 1 \<rparr> else m,
              CmdNil, [])
      else if Matches msg (Expand (keys e)) then lift (expandCurrent e m)
      else if Matches msg (Collapse (keys e)) then
        lift (map_option (\<lambda>m'. (m', [])) (collapseCurrent e m))
      else if Matches msg (Select (keys e)) then selectCurrent e m
      else if Matches msg (Kill (keys e)) then confirmKill m
      else if Matches msg (Create (keys e)) then
        Some (m\<lparr> mode := ModeCreate, filter_text := [],
                 input := (input m)\<lparr> Value := [], Focused := True \<rparr> \<rparr>,
              Blink, [])
      else if filter_text m = [] \<and> Matches msg (Jump1 (keys e)) then handleJump e m 1
      else if filter_text m = [] \<and> Matches msg (Jump2 (keys e)) then handleJump e m 2
      else if filter_text m = [] \<and> Matches msg (Jump3 (keys e)) then handleJump e m 3
      else if filter_text m = [] \<and> Matches msg (Jump4 (keys e)) then handleJump e m 4
      else if filter_text m = [] \<and> Matches msg (Jump5 (keys e)) then handleJump e m 5
      else if filter_text m = [] \<and> Matches msg (Jump6 (keys e)) then handleJump e m 6
      else if filter_text m = [] \<and> Matches msg (Jump7 (keys e)) then handleJump e m 7
      else if filter_text m = [] \<and> Matches msg (Jump8 (keys e)) then handleJump e m 8
      else if filter_text m = [] \<and> Matches msg (Jump9 (keys e)) then handleJump e m 9
      else if Type msg = KeyBackspace then
        (if length (filter_text m) > 0
         then Some (rebuildItems e (m\<lparr> filter_text := take (length (filter_text m) - 1) (filter_text m) \<rparr>),
                    CmdNil, [])
         else Some (m, CmdNil, []))
      else if Type msg = KeyRunes then
        Some (rebuildItems e (m\<lparr> filter_text := filter_text m @ Runes msg \<rparr>), CmdNil, [])
      else Some (m, CmdNil, []))"

definition handleConfirmKillMode :: "Env \<Rightarrow> Model \<Rightarrow> KeyMsg \<Rightarrow> (Model \<times> Cmd \<times> Effect list) option" where
  "handleConfirmKillMode e m msg =
     (if Matches msg (Confirm (keys e)) then killCurrent e m False
      else if Matches msg (Cancel (keys e)) then
        Some (m\<lparr> mode := ModeNormal, message := [], killTarget := [] \<rparr>, CmdNil, [])
      else Some (m, CmdNil, []))"

definition handleCreateMode :: "Env \<Rightarrow> Model \<Rightarrow> KeyMsg \<Rightarrow> (Model \<times> Cmd \<times> Effect list) option" where
  "handleCreateMode e m msg =
     (if Matches msg (Cancel (keys e)) then
        Some (m\<lparr> mode := ModeNormal, input := (input m)\<lparr> Focused := False \<rparr> \<rparr>, CmdNil, [])
      else if Type msg = KeyEnter then
        (let name = TrimSpace e (Value (input m)) in
         if name = [] then
           Some (m\<lparr> message := ''Session name cannot be empty'', messageIsError := True \<rparr>,
                 CmdNil, [])
         else createSession e m name)
      else if Type msg = KeyCtrlN \<or> Type msg = KeyCtrlO \<or> Type msg = KeyCtrlJ \<or> Type msg = KeyCtrlK
              \<or> Type msg = KeyCtrlH \<or> Type msg = KeyCtrlL \<or> Type msg = KeyCtrlX \<or> Type msg = KeyCtrlY
              \<or> Type msg = KeyCtrlP then
        Some (m, CmdNil, [])
      else
        (case InputUpdate e (input m) (KeyPress msg) of
           (inp, cmd) \<Rightarrow> Some (m\<lparr> input := inp \<rparr>, cmd, [])))"

definition handleKey :: "Env \<Rightarrow> Model \<Rightarrow> KeyMsg \<Rightarrow> (Model \<times> Cmd \<times> Effect list) option" where
  "handleKey e m msg =
     (case mode m of
        ModeNormal \<Rightarrow> handleNormalMode e m msg
      | ModeConfirmKill \<Rightarrow> handleConfirmKillMode e m msg
      | ModeCreate \<Rightarrow> handleCreateMode e m msg)"

definition Update :: "Env \<Rightarrow> Model \<Rightarrow> Msg \<Rightarrow> (Model \<times> Cmd \<times> Effect list) option" where
  "Update e m msg =
     (case msg of
        SessionsMsg ss \<Rightarrow>
          (let m1 = rebuildItems e (calculateColumnWidths (loadClaudeStatuses e (m\<lparr> sessions := ss \<rparr>)))
           in Some (if length (items m1) = 0
                    then m1\<lparr> message := ''No other sessions. Press c to create one.'' \<rparr>
                    else m1,
                    CmdNil, []))
      | ErrMsg err \<Rightarrow> Some (m\<lparr> message := ''Error: '' @ err, messageIsError := True \<rparr>, CmdNil, [])
      | ClearMessageMsg \<Rightarrow> Some (m\<lparr> message := [], messageIsError := False \<rparr>, CmdNil, [])
      | KeyPress k \<Rightarrow> handleKey e m k
      | OtherMsg n \<Rightarrow>
          (if mode m = ModeCreate then
             (case InputUpdate e (input m) msg of (inp, cmd) \<Rightarrow> Some (m\<lparr> input := inp \<rparr>, cmd, []))
           else Some (m, CmdNil, [])))"

text \<open>
  The event loop: messages are handled one at a time, each against the outside world as it
  is at that moment. \<open>None\<close> when a handler panics on the way.
\<close>

fun run :: "Model \<Rightarrow> (Env \<times> Msg) list \<Rightarrow> Model option" where
  "run m [] = Some m"
| "run m (ev # evs) =
     (case Update (fst ev) m (snd ev) of
        None \<Rightarrow> None
      | Some r \<Rightarrow> run (fst r) evs)"

section \<open>The specification's vocabulary\<close>

text \<open>
  The row sequence as the specification describes it: sessions in their given order; a
  session is kept when the filter is empty or its name contains the filter as a
  case-insensitive substring; a kept session gives its session row, followed, when it is
  expanded, by one window row per window in stored order.
\<close>

definition passesFilter :: "Env \<Rightarrow> string \<Rightarrow> Session \<Rightarrow> bool" where
  "passesFilter e flt s = (flt = [] \<or> sublist (ToLower e flt) (ToLower e (Name s)))"

definition windowRows :: "int \<Rightarrow> Session \<Rightarrow> Item list" where
  "windowRows i s =
     map (\<lambda>j. \<lparr> IsSession = False, SessionIndex = i, WindowIndex = int j \<rparr>)
       [0..<length (Windows s)]"

definition sessionRows :: "int \<Rightarrow> Session \<Rightarrow> Item list" where
  "sessionRows i s =
     \<lparr> IsSession = True, SessionIndex = i, WindowIndex = 0 \<rparr>
       # (if Expanded s then windowRows i s else [])"

definition visibleRows :: "Env \<Rightarrow> Session list \<Rightarrow> string \<Rightarrow> Item list" where
  "visibleRows e ss flt =
     concat (map (\<lambda>(i, s). sessionRows (int i) s)
               (filter (\<lambda>(i, s). passesFilter e flt s) (enumerate 0 ss)))"

text \<open>The cursor invariant of the specification.\<close>

definition cursorOK :: "Model \<Rightarrow> bool" where
  "cursorOK m =
     (if items m = [] then cursor m = 0
      else 0 \<le> cursor m \<and> cursor m < int (length (items m)))"

text \<open>
  Every row refers to a session of the model and, for a window row, to a window of that
  session: the condition under which no handler indexes out of range.
\<close>

definition itemOK :: "Session list \<Rightarrow> Item \<Rightarrow> bool" where
  "itemOK ss it =
     (0 \<le> SessionIndex it \<and> SessionIndex it < int (length ss) \<and>
      (IsSession it \<or>
       (0 \<le> WindowIndex it \<and>
        WindowIndex it < int (length (Windows (ss ! nat (SessionIndex it)))))))"

definition wellFormed :: "Model \<Rightarrow> bool" where
  "wellFormed m = (list_all (itemOK (sessions m)) (items m) \<and> cursorOK m)"

definition atMostOneExpanded :: "Session list \<Rightarrow> bool" where
  "atMostOneExpanded ss = (length (filter Expanded ss) \<le> 1)"

text \<open>
  A model is up to date when its rows are the rows of its sessions and filter. The visible
  names are the names of the sessions that have a session row, in row order. The window
  invariant of the specification: every window row sits under a session that is expanded
  and passes the filter.
\<close>

definition upToDate :: "Env \<Rightarrow> Model \<Rightarrow> bool" where
  "upToDate e m = (items m = visibleRows e (sessions m) (filter_text m))"

definition visibleNames :: "Model \<Rightarrow> string list" where
  "visibleNames m =
     map (\<lambda>it. Name (sessions m ! nat (SessionIndex it))) (filter IsSession (items m))"

definition windowsUnderExpanded :: "Env \<Rightarrow> Model \<Rightarrow> bool" where
  "windowsUnderExpanded e m =
     list_all
       (\<lambda>it. IsSession it \<or>
          (case elemAt (sessions m) (SessionIndex it) of
             None \<Rightarrow> False
           | Some s \<Rightarrow> Expanded s \<and> passesFilter e (filter_text m) s))
       (items m)"

text \<open>
  Keys. \<open>handleNormalMode\<close> tests nine command bindings before the jumps, and the jumps in
  the order 1 to 9. A key is a command key when one of the nine matches it; it is the jump
  key \<open>d\<close> when it is no command key and \<open>d\<close> is the first jump whose binding matches it;
  it is no jump when no jump binding matches it.
\<close>

definition commandKey :: "Env \<Rightarrow> KeyMsg \<Rightarrow> bool" where
  "commandKey e k =
     (Matches k (Quit (keys e)) \<or> Matches k (Cancel (keys e)) \<or> Matches k (Up (keys e))
      \<or> Matches k (Down (keys e)) \<or> Matches k (Expand (keys e)) \<or> Matches k (Collapse (keys e))
      \<or> Matches k (Select (keys e)) \<or> Matches k (Kill (keys e)) \<or> Matches k (Create (keys e)))"

definition jumpBinding :: "KeyMap \<Rightarrow> int \<Rightarrow> string list" where
  "jumpBinding km d =
     (if d = 1 then Jump1 km else if d = 2 then Jump2 km else if d = 3 then Jump3 km
      else if d = 4 then Jump4 km else if d = 5 then Jump5 km else if d = 6 then Jump6 km
      else if d = 7 then Jump7 km else if d = 8 then Jump8 km else if d = 9 then Jump9 km
      else [])"

definition jumpKey :: "Env \<Rightarrow> KeyMsg \<Rightarrow> int \<Rightarrow> bool" where
  "jumpKey e k d =
     (\<not> commandKey e k \<and> 1 \<le> d \<and> d \<le> 9 \<and> Matches k (jumpBinding (keys e) d)
      \<and> list_all (\<lambda>d'. \<not> Matches k (jumpBinding (keys e) d')) [1..d - 1])"


text \<open>
  The outcome of a switch: the call to tmux is made; when tmux accepts it the model is
  unchanged and the command is \<open>tea.Quit\<close>; when tmux refuses it the error is put into the
  message and there is no command.
\<close>

definition switched :: "Env \<Rightarrow> Model \<Rightarrow> string \<Rightarrow> (Model \<times> Cmd \<times> Effect list) option \<Rightarrow> bool" where
  "switched e m target r =
     (case r of
        None \<Rightarrow> False
      | Some (m', c, fx) \<Rightarrow>
          fx = [SwitchClientCall target] \<and>
          (case SwitchClient e target of
             None \<Rightarrow> c = TeaQuit \<and> m' = m
           | Some err \<Rightarrow>
               c = CmdNil \<and> m' = m\<lparr> message := ''Error: '' @ err, messageIsError := True \<rparr>))"

text \<open>
  Kill targets. Sessions are named when no name is empty. A model has its target captured
  when its sessions are named and, in Confirm mode, \<open>killTarget\<close> is not empty. \<open>sameKill\<close>
  relates two models with the same sessions, mode and kill target.
\<close>

definition sessionsNamed :: "Session list \<Rightarrow> bool" where
  "sessionsNamed ss = list_all (\<lambda>s. Name s \<noteq> []) ss"

definition targetCaptured :: "Model \<Rightarrow> bool" where
  "targetCaptured m =
     (sessionsNamed (sessions m) \<and> (mode m \<noteq> ModeConfirmKill \<or> killTarget m \<noteq> []))"

definition sameKill :: "Model \<Rightarrow> Model \<Rightarrow> bool" where
  "sameKill m m' =
     (sessions m' = sessions m \<and> mode m' = mode m \<and> killTarget m' = killTarget m)"

text \<open>
  Vocabulary for results: \<open>returns P r\<close> says that the handler did not panic and that its
  next model satisfies \<open>P\<close>; \<open>whenReturns P r\<close> says that the next model satisfies \<open>P\<close> if
  the handler did not panic; \<open>sameView\<close> relates two models with the same sessions, rows
  and cursor.
\<close>

definition returns :: "(Model \<Rightarrow> bool) \<Rightarrow> (Model \<times> 'a) option \<Rightarrow> bool" where
  "returns P r = (case r of None \<Rightarrow> False | Some x \<Rightarrow> P (fst x))"

definition whenReturns :: "(Model \<Rightarrow> bool) \<Rightarrow> (Model \<times> 'a) option \<Rightarrow> bool" where
  "whenReturns P r = (case r of None \<Rightarrow> True | Some x \<Rightarrow> P (fst x))"

definition sameView :: "Model \<Rightarrow> Model \<Rightarrow> bool" where
  "sameView m m' = (sessions m' = sessions m \<and> items m' = items m \<and> cursor m' = cursor m)"

section \<open>A sample environment for concrete instances\<close>

text \<open>
  Bindings, tmux answers and string functions used to evaluate the controller on concrete
  inputs: digits bound to the jumps, ASCII lower-casing and ASCII white space, a tmux
  that accepts every call.
\<close>

definition lowerChar :: "char \<Rightarrow> char" where
  "lowerChar c =
     (case map_of (zip ''ABCDEFGHIJKLMNOPQRSTUVWXYZ'' ''abcdefghijklmnopqrstuvwxyz'') c of
        Some d \<Rightarrow> d
      | None \<Rightarrow> c)"

definition asciiLower :: "string \<Rightarrow> string" where
  "asciiLower s = map lowerChar s"

definition asciiSpace :: "char \<Rightarrow> bool" where
  "asciiSpace c = (c \<in> set [CHR '' '', CHR 0x09, CHR 0x0A, CHR 0x0B, CHR 0x0C, CHR 0x0D])"

definition asciiTrim :: "string \<Rightarrow> string" where
  "asciiTrim s = rev (dropWhile asciiSpace (rev (dropWhile asciiSpace s)))"

definition sampleKeys :: KeyMap where
  "sampleKeys =
     \<lparr> Quit = [''ctrl+c''], Cancel = [''esc''], Up = [''up'', ''ctrl+k''],
       Down = [''down'', ''ctrl+j''], Expand = [''right'', ''ctrl+l''],
       Collapse = [''left'', ''ctrl+h''], Select = [''enter''], Kill = [''ctrl+x''],
       Create = [''ctrl+n''], Confirm = [''y''],
       Jump1 = [''1''], Jump2 = [''2''], Jump3 = [''3''], Jump4 = [''4''], Jump5 = [''5''],
       Jump6 = [''6''], Jump7 = [''7''], Jump8 = [''8''], Jump9 = [''9''] \<rparr>"

definition sampleEnv :: Env where
  "sampleEnv =
     \<lparr> keys = sampleKeys, ToLower = asciiLower, TrimSpace = asciiTrim, HOME = ''/home/u'',
       Stat = (\<lambda>p. False), GetStatus = (\<lambda>n d. \<lparr> State = [], Timestamp = 0 \<rparr>),
       ListWindows = (\<lambda>n. Inr []), SwitchClient = (\<lambda>t. None), KillSession = (\<lambda>n. None),
       KillWindow = (\<lambda>n i. None), CreateSession = (\<lambda>n d. None),
       InputUpdate = (\<lambda>inp msg. (inp, CmdNil)) \<rparr>"

text \<open>
  Keys as the key layer delivers them, sessions and windows, and models in Normal mode
  whose rows are rebuilt from their sessions and filter.
\<close>

definition namedKey :: "string \<Rightarrow> KeyMsg" where
  "namedKey s = \<lparr> Type = KeyOther, Runes = [], Str = s \<rparr>"

definition runeKey :: "string \<Rightarrow> KeyMsg" where
  "runeKey s = \<lparr> Type = KeyRunes, Runes = s, Str = s \<rparr>"

definition backspaceKey :: KeyMsg where
  "backspaceKey = \<lparr> Type = KeyBackspace, Runes = [], Str = ''backspace'' \<rparr>"

definition enterKey :: KeyMsg where
  "enterKey = \<lparr> Type = KeyEnter, Runes = [], Str = ''enter'' \<rparr>"

definition mkSession :: "string \<Rightarrow> bool \<Rightarrow> Window list \<Rightarrow> Session" where
  "mkSession n x ws = \<lparr> Name = n, LastActivity = 0, Expanded = x, Windows = ws \<rparr>"

definition mkWindow :: "int \<Rightarrow> string \<Rightarrow> Window" where
  "mkWindow i n = \<lparr> Index = i, WName = n \<rparr>"

definition noConfig :: Config where
  "noConfig = \<lparr> Layout = [], LayoutDir = [], ClaudeStatusEnabled = False, CacheDir = [] \<rparr>"

text \<open>
  Variations of the sample environment: a tmux that cannot list windows, one that lists a
  single window, one that refuses to switch, and a text input that appends what is typed.
\<close>

definition failingList :: Env where
  "failingList = sampleEnv\<lparr> ListWindows := (\<lambda>n. Inl ''no server'') \<rparr>"

definition listingOne :: Env where
  "listingOne = sampleEnv\<lparr> ListWindows := (\<lambda>n. Inr [mkWindow 1 ''shell'']) \<rparr>"

definition failingSwitch :: Env where
  "failingSwitch = sampleEnv\<lparr> SwitchClient := (\<lambda>t. Some ''no client'') \<rparr>"

definition typing :: "TextInput \<Rightarrow> Msg \<Rightarrow> TextInput \<times> Cmd" where
  "typing inp msg =
     (case msg of
        KeyPress k \<Rightarrow> (inp\<lparr> Value := Value inp @ Runes k \<rparr>, CmdNil)
      | _ \<Rightarrow> (inp, CmdNil))"

definition typingEnv :: Env where
  "typingEnv = sampleEnv\<lparr> InputUpdate := typing \<rparr>"

definition threeSessions :: "Session list" where
  "threeSessions = [mkSession ''alpha'' False [], mkSession ''beta'' False [], mkSession ''gamma'' False []]"

definition mixedSessions :: "Session list" where
  "mixedSessions =
     [mkSession ''Alpha'' True [mkWindow 1 ''edit'', mkWindow 4 ''run''],
      mkSession ''beta'' True [mkWindow 1 ''logs''],
      mkSession ''gALa'' False [mkWindow 2 ''top'']]"

definition twoSessions :: "Session list" where
  "twoSessions =
     [mkSession ''alpha'' True [mkWindow 1 ''edit'', mkWindow 2 ''run''],
      mkSession ''beta'' False []]"


definition browsing :: "Session list \<Rightarrow> string \<Rightarrow> int \<Rightarrow> Model" where
  "browsing ss flt c = rebuildItems sampleEnv ((New [] noConfig)\<lparr> sessions := ss, filter_text := flt, cursor := c \<rparr>)"

definition confirming :: "int \<Rightarrow> string \<Rightarrow> Model" where
  "confirming c t = (browsing twoSessions [] c)\<lparr> mode := ModeConfirmKill, killTarget := t \<rparr>"

text \<open>
  Event sequences from the initial model.
\<close>

definition downThrice :: "(Env \<times> Msg) list" where
  "downThrice =
     [(sampleEnv, SessionsMsg threeSessions),
      (sampleEnv, KeyPress (namedKey ''down'')),
      (sampleEnv, KeyPress (namedKey ''down'')),
      (sampleEnv, KeyPress (namedKey ''down''))]"

definition staleRun :: "(Env \<times> Msg) list" where
  "staleRun =
     [(sampleEnv, SessionsMsg [mkSession ''alpha'' False [], mkSession ''beta'' False []]),
      (listingOne, KeyPress (namedKey ''right'')),
      (sampleEnv, KeyPress (namedKey ''down'')),
      (sampleEnv, KeyPress (namedKey ''down'')),
      (failingList, KeyPress (namedKey ''right''))]"

definition createRun :: "(Env \<times> Msg) list" where
  "createRun =
     [(typingEnv, KeyPress (namedKey ''ctrl+n'')),
      (typingEnv, KeyPress (runeKey ''d'')),
      (typingEnv, KeyPress (runeKey ''e'')),
      (typingEnv, KeyPress (runeKey ''v''))]"

definition staleFilterRun :: "(Env \<times> Msg) list" where
  "staleFilterRun =
     [(sampleEnv, SessionsMsg threeSessions),
      (sampleEnv, KeyPress (runeKey ''b'')),
      (sampleEnv, KeyPress (namedKey ''ctrl+n'')),
      (sampleEnv, KeyPress (namedKey ''esc''))]"

definition swapRun :: "(Env \<times> Msg) list" where
  "swapRun =
     [(sampleEnv, SessionsMsg [mkSession ''alpha'' False [], mkSession ''beta'' False []]),
      (sampleEnv, KeyPress (namedKey ''ctrl+x'')),
      (sampleEnv, SessionsMsg [mkSession ''beta'' False [], mkSession ''alpha'' False []])]"

section \<open>The flattener\<close>

lemma elemAt_Some: "0 \<le> i \<Longrightarrow> i < int (length xs) \<Longrightarrow> elemAt xs i = Some (xs ! nat i)"
  by (simp add: elemAt_def)

lemma Contains_sublist: "Contains s sub = sublist sub s"
  by (induction s) (auto simp: sublist_Cons_right)

lemma appendWindows_eq:
  "appendWindows i ws j acc =
     acc @ map (\<lambda>k. \<lparr> IsSession = False, SessionIndex = i, WindowIndex = j + int k \<rparr>)
             [0..<length ws]"
proof (induction ws arbitrary: j acc)
  case Nil
  then show ?case by simp
next
  case (Cons w ws)
  have "map (\<lambda>k. \<lparr> IsSession = False, SessionIndex = i, WindowIndex = j + int k \<rparr>)
          [0..<Suc (length ws)]
        = \<lparr> IsSession = False, SessionIndex = i, WindowIndex = j \<rparr>
          # map (\<lambda>k. \<lparr> IsSession = False, SessionIndex = i, WindowIndex = (j + 1) + int k \<rparr>)
              [0..<length ws]"
    by (simp add: map_upt_Suc add.assoc del: upt_Suc)
  then show ?case using Cons.IH [of "j + 1"] by simp
qed

lemma rebuildLoop_eq:
  "rebuildLoop e flt (ToLower e flt) ss (int n) acc =
     acc @ concat (map (\<lambda>(i, s). sessionRows (int i) s)
                     (filter (\<lambda>(i, s). passesFilter e flt s) (enumerate n ss)))"
proof (induction ss arbitrary: n acc)
  case Nil
  then show ?case by simp
next
  case (Cons s ss)
  have IH: "\<And>acc. rebuildLoop e flt (ToLower e flt) ss (int n + 1) acc =
     acc @ concat (map (\<lambda>(i, s). sessionRows (int i) s)
                     (filter (\<lambda>(i, s). passesFilter e flt s) (enumerate (Suc n) ss)))"
    using Cons.IH [of "Suc n"] by (simp add: add.commute)
  have cond: "(flt \<noteq> [] \<and> \<not> fuzzyMatch e (Name s) (ToLower e flt)) = (\<not> passesFilter e flt s)"
    by (simp add: passesFilter_def fuzzyMatch_def Contains_sublist)
  have rows: "(if Expanded s
               then appendWindows (int n) (Windows s) 0
                      (acc @ [\<lparr> IsSession = True, SessionIndex = int n, WindowIndex = 0 \<rparr>])
               else acc @ [\<lparr> IsSession = True, SessionIndex = int n, WindowIndex = 0 \<rparr>])
              = acc @ sessionRows (int n) s"
    by (simp add: sessionRows_def windowRows_def appendWindows_eq)
  show ?case
  proof (cases "passesFilter e flt s")
    case True
    then show ?thesis
      unfolding rebuildLoop.simps cond Let_def rows IH by simp
  next
    case False
    then show ?thesis
      unfolding rebuildLoop.simps cond Let_def IH by simp
  qed
qed

lemma items_rebuildItems:
  "items (rebuildItems e m) = visibleRows e (sessions m) (filter_text m)"
  using rebuildLoop_eq [of e "filter_text m" "sessions m" 0 "[]"]
  by (simp add: rebuildItems_def visibleRows_def Let_def)

lemma sessionRows_only_sessions:
  "filter IsSession (concat (map (\<lambda>(i, s). sessionRows (int i) s) ps)) =
     map (\<lambda>(i, s). \<lparr> IsSession = True, SessionIndex = int i, WindowIndex = 0 \<rparr>) ps"
  by (induction ps) (auto simp: sessionRows_def windowRows_def filter_empty_conv)

lemma filter_sessionRows:
  "filter IsSession (sessionRows i s) = [\<lparr> IsSession = True, SessionIndex = i, WindowIndex = 0 \<rparr>]"
  by (auto simp: sessionRows_def windowRows_def filter_empty_conv)

lemma rebuildItems_id:
  assumes "upToDate e m" "0 \<le> cursor m" "cursor m < int (length (items m))"
  shows "rebuildItems e m = m"
proof -
  have "rebuildLoop e (filter_text m) (ToLower e (filter_text m)) (sessions m) 0 [] = items m"
    using rebuildLoop_eq [of e "filter_text m" "sessions m" 0 "[]"] assms(1)
    by (simp add: upToDate_def visibleRows_def)
  with assms(2,3) show ?thesis
    by (simp add: rebuildItems_def Let_def clampCursor_def)
qed

section \<open>Well-formed models stay well-formed\<close>

lemma returns_Some [simp]: "returns P (Some (m', x)) = P m'"
  by (simp add: returns_def)

lemma returns_None [simp]: "returns P None = False"
  by (simp add: returns_def)

lemma returns_mono: "returns Q r \<Longrightarrow> (\<And>m'. Q m' \<Longrightarrow> P m') \<Longrightarrow> returns P r"
  by (auto simp: returns_def split: option.splits)

lemma returns_lift [simp]: "returns P (lift r) = returns P r"
  by (auto simp: returns_def lift_def split: option.splits)

lemma sameView_refl [simp]: "sameView m m"
  by (simp add: sameView_def)

lemma sameView_upd [simp]:
  "sameView m (m'\<lparr> message := a \<rparr>) = sameView m m'"
  "sameView m (m'\<lparr> messageIsError := b \<rparr>) = sameView m m'"
  "sameView m (m'\<lparr> mode := c \<rparr>) = sameView m m'"
  "sameView m (m'\<lparr> killTarget := d \<rparr>) = sameView m m'"
  "sameView m (m'\<lparr> input := f \<rparr>) = sameView m m'"
  by (simp_all add: sameView_def)

lemma rebuildItems_fields [simp]:
  "sessions (rebuildItems e m) = sessions m"
  "filter_text (rebuildItems e m) = filter_text m"
  "mode (rebuildItems e m) = mode m"
  "message (rebuildItems e m) = message m"
  "messageIsError (rebuildItems e m) = messageIsError m"
  "killTarget (rebuildItems e m) = killTarget m"
  "input (rebuildItems e m) = input m"
  by (simp_all add: rebuildItems_def Let_def)

lemma cursor_rebuildItems:
  "cursor (rebuildItems e m) =
     clampCursor (cursor m) (int (length (visibleRows e (sessions m) (filter_text m))))"
  using items_rebuildItems [of e m] by (simp add: rebuildItems_def Let_def)

lemma cursorOK_rebuildItems: "cursorOK (rebuildItems e m)"
  by (auto simp: cursorOK_def cursor_rebuildItems items_rebuildItems clampCursor_def Let_def)

lemma itemOK_visibleRows: "list_all (itemOK ss) (visibleRows e ss flt)"
  by (auto simp: list_all_iff visibleRows_def sessionRows_def windowRows_def itemOK_def
        in_set_enumerate_eq split: if_splits)

lemma wellFormed_rebuildItems: "wellFormed (rebuildItems e m)"
  by (simp add: wellFormed_def cursorOK_rebuildItems items_rebuildItems itemOK_visibleRows)

lemma itemOK_same_shape:
  assumes "length ss' = length ss"
    and "\<And>i. i < length ss \<Longrightarrow> length (Windows (ss' ! i)) = length (Windows (ss ! i))"
  shows "itemOK ss' it = itemOK ss it"
  using assms by (auto simp: itemOK_def)

lemma wellFormed_sameView: "wellFormed m \<Longrightarrow> sameView m m' \<Longrightarrow> wellFormed m'"
  by (simp add: wellFormed_def sameView_def cursorOK_def)

lemma wellFormed_item:
  assumes "wellFormed m" "0 \<le> cursor m" "cursor m < int (length (items m))"
  shows "itemOK (sessions m) (items m ! nat (cursor m))"
  using assms by (simp add: wellFormed_def list_all_length)

lemma switchTo_sameView: "returns (sameView m) (switchTo e m t)"
  by (simp add: switchTo_def split: option.splits)

lemma jumpSession_sameView: "returns (sameView m) (jumpSession e m n)"
  by (simp add: jumpSession_def Let_def switchTo_sameView)

lemma handleJump_sameView:
  "wellFormed m \<Longrightarrow> returns (sameView m) (handleJump e m n)"
  using wellFormed_item [of m]
  by (auto simp: handleJump_def Let_def itemOK_def elemAt_def switchTo_sameView
        jumpSession_sameView split: option.splits)

lemma rowTarget_Some:
  "itemOK (sessions m) it \<Longrightarrow> \<exists>t. rowTarget m it = Some t"
  by (auto simp: rowTarget_def itemOK_def elemAt_def)

lemma selectCurrent_sameView:
  "wellFormed m \<Longrightarrow> returns (sameView m) (selectCurrent e m)"
  using wellFormed_item [of m] rowTarget_Some [of m "items m ! nat (cursor m)"]
  by (auto simp: selectCurrent_def switchTo_sameView)

lemma confirmKill_sameView:
  "wellFormed m \<Longrightarrow> returns (sameView m) (confirmKill m)"
  using wellFormed_item [of m] rowTarget_Some [of m "items m ! nat (cursor m)"]
  by (auto simp: confirmKill_def Let_def)

lemma killDone_sameView [simp]: "sameView m (killDone m err t)"
  by (simp add: killDone_def Let_def split: option.splits)

lemma killCurrent_sameView:
  assumes "wellFormed m"
  shows "returns (sameView m) (killCurrent e m b)"
proof (cases "cursor m < 0 \<or> cursor m \<ge> int (length (items m))")
  case True
  then show ?thesis by (simp add: killCurrent_def)
next
  case False
  then have "itemOK (sessions m) (items m ! nat (cursor m))"
    using wellFormed_item [OF assms] by simp
  with False show ?thesis
    by (auto simp: killCurrent_def Let_def itemOK_def elemAt_def)
qed

lemma createSession_sameView: "returns (sameView m) (createSession e m n)"
  by (simp add: createSession_def Let_def split: option.splits)

lemma map_collapse_shape:
  "length (map (\<lambda>s. s\<lparr> Expanded := False \<rparr>) ss) = length ss"
  "i < length ss \<Longrightarrow> Windows (map (\<lambda>s. s\<lparr> Expanded := False \<rparr>) ss ! i) = Windows (ss ! i)"
  by simp_all

lemma wellFormed_collapsed:
  assumes "wellFormed m"
  shows "wellFormed (m\<lparr> sessions := map (\<lambda>s. s\<lparr> Expanded := False \<rparr>) (sessions m),
                       message := a, messageIsError := b \<rparr>)"
proof -
  have "itemOK (map (\<lambda>s. s\<lparr> Expanded := False \<rparr>) (sessions m)) = itemOK (sessions m)"
    by (rule ext, rule itemOK_same_shape) simp_all
  with assms show ?thesis by (simp add: wellFormed_def cursorOK_def)
qed

lemma expandCurrent_wellFormed:
  assumes "wellFormed m"
  shows "returns wellFormed (expandCurrent e m)"
proof (cases "cursor m < 0 \<or> cursor m \<ge> int (length (items m))")
  case True
  with assms show ?thesis by (simp add: expandCurrent_def)
next
  case False
  then have "itemOK (sessions m) (items m ! nat (cursor m))"
    using wellFormed_item [OF assms] by simp
  with False assms show ?thesis
    by (auto simp: expandCurrent_def Let_def itemOK_def elemAt_def wellFormed_rebuildItems
          wellFormed_collapsed split: sum.splits)
qed

lemma collapseCurrent_wellFormed:
  assumes "wellFormed m"
  shows "\<exists>m'. collapseCurrent e m = Some m' \<and> wellFormed m'"
proof (cases "cursor m < 0 \<or> cursor m \<ge> int (length (items m))")
  case True
  with assms show ?thesis by (simp add: collapseCurrent_def)
next
  case False
  then have "itemOK (sessions m) (items m ! nat (cursor m))"
    using wellFormed_item [OF assms] by simp
  with False show ?thesis
    by (auto simp: collapseCurrent_def Let_def itemOK_def elemAt_def wellFormed_rebuildItems)
qed

lemma returns_wellFormed:
  "wellFormed m \<Longrightarrow> returns (sameView m) r \<Longrightarrow> returns wellFormed r"
  by (auto simp: returns_def wellFormed_sameView split: option.splits)

lemma wellFormed_other [simp]:
  "wellFormed (m\<lparr> message := a \<rparr>) = wellFormed m"
  "wellFormed (m\<lparr> messageIsError := b \<rparr>) = wellFormed m"
  "wellFormed (m\<lparr> mode := c \<rparr>) = wellFormed m"
  "wellFormed (m\<lparr> killTarget := d \<rparr>) = wellFormed m"
  "wellFormed (m\<lparr> input := f \<rparr>) = wellFormed m"
  "wellFormed (m\<lparr> filter_text := g \<rparr>) = wellFormed m"
  by (simp_all add: wellFormed_def cursorOK_def)

lemma wellFormed_up: "wellFormed m \<Longrightarrow> 0 < cursor m \<Longrightarrow> wellFormed (m\<lparr> cursor := cursor m - 1 \<rparr>)"
  by (auto simp: wellFormed_def cursorOK_def split: if_splits)

lemma wellFormed_down:
  "wellFormed m \<Longrightarrow> cursor m < int (length (items m)) - 1 \<Longrightarrow> wellFormed (m\<lparr> cursor := cursor m + 1 \<rparr>)"
  by (auto simp: wellFormed_def cursorOK_def split: if_splits)

lemma collapse_key_wellFormed:
  "wellFormed m \<Longrightarrow> returns wellFormed (map_option (\<lambda>m'. (m', [])) (collapseCurrent e m))"
  using collapseCurrent_wellFormed [of m e] by auto

lemma handleNormalMode_wellFormed:
  assumes "wellFormed m"
  shows "returns wellFormed (handleNormalMode e m k)"
  using assms
  by (simp add: handleNormalMode_def wellFormed_rebuildItems wellFormed_up wellFormed_down
        expandCurrent_wellFormed collapse_key_wellFormed
        returns_wellFormed [OF _ handleJump_sameView]
        returns_wellFormed [OF _ selectCurrent_sameView]
        returns_wellFormed [OF _ confirmKill_sameView])

lemma handleConfirmKillMode_wellFormed:
  assumes "wellFormed m"
  shows "returns wellFormed (handleConfirmKillMode e m k)"
  using assms
  by (simp add: handleConfirmKillMode_def returns_wellFormed [OF _ killCurrent_sameView])

lemma handleCreateMode_wellFormed:
  assumes "wellFormed m"
  shows "returns wellFormed (handleCreateMode e m k)"
  using assms
  by (simp add: handleCreateMode_def Let_def returns_wellFormed [OF _ createSession_sameView]
        split: prod.splits)

lemma Update_wellFormed:
  assumes "wellFormed m"
  shows "returns wellFormed (Update e m msg)"
  using assms
  by (cases msg)
     (simp_all add: Update_def handleKey_def Let_def wellFormed_rebuildItems
        handleNormalMode_wellFormed handleConfirmKillMode_wellFormed handleCreateMode_wellFormed
        split: prod.splits Mode.splits)

lemma wellFormed_New: "wellFormed (New cur cfg)"
  by (simp add: wellFormed_def cursorOK_def New_def)

lemma run_wellFormed:
  "wellFormed m \<Longrightarrow> \<exists>m'. run m evs = Some m' \<and> wellFormed m'"
proof (induction evs arbitrary: m)
  case Nil
  then show ?case by simp
next
  case (Cons ev evs)
  from Update_wellFormed [OF Cons.prems, of "fst ev" "snd ev"]
  obtain r where r: "Update (fst ev) m (snd ev) = Some r" "wellFormed (fst r)"
    by (auto simp: returns_def split: option.splits)
  from Cons.IH [OF r(2)] r(1) show ?case by simp
qed

section \<open>Which handler a key reaches\<close>

lemma digit_cases:
  "1 \<le> d \<Longrightarrow> d \<le> 9 \<Longrightarrow>
   d = 1 \<or> d = 2 \<or> d = 3 \<or> d = 4 \<or> d = 5 \<or> d = 6 \<or> d = 7 \<or> d = 8 \<or> d = (9::int)"
  by arith

lemma jump_dispatch:
  assumes "mode m = ModeNormal" "filter_text m = []" "jumpKey e k d"
  shows "Update e m (KeyPress k) = handleJump e m d"
proof -
  from assms(3) have d: "1 \<le> d" "d \<le> 9" by (simp_all add: jumpKey_def)
  have earlier: "\<And>d'. 1 \<le> d' \<Longrightarrow> d' < d \<Longrightarrow> \<not> Matches k (jumpBinding (keys e) d')"
    using assms(3) by (auto simp: jumpKey_def list_all_iff)
  from assms(3) have this_one: "Matches k (jumpBinding (keys e) d)" and cmd: "\<not> commandKey e k"
    by (simp_all add: jumpKey_def)
  from digit_cases [OF d] assms(1,2) cmd this_one
    earlier [of 1] earlier [of 2] earlier [of 3] earlier [of 4]
    earlier [of 5] earlier [of 6] earlier [of 7] earlier [of 8]
  show ?thesis
    by (elim disjE)
       (simp_all add: commandKey_def jumpBinding_def Update_def handleKey_def handleNormalMode_def)
qed

lemma expand_key:
  assumes "mode m = ModeNormal" "\<not> Matches k (Quit (keys e))" "\<not> Matches k (Cancel (keys e))"
    "\<not> Matches k (Up (keys e))" "\<not> Matches k (Down (keys e))" "Matches k (Expand (keys e))"
  shows "Update e m (KeyPress k) = lift (expandCurrent e m)"
  using assms by (simp add: Update_def handleKey_def handleNormalMode_def)

lemma collapse_key:
  assumes "mode m = ModeNormal" "\<not> Matches k (Quit (keys e))" "\<not> Matches k (Cancel (keys e))"
    "\<not> Matches k (Up (keys e))" "\<not> Matches k (Down (keys e))" "\<not> Matches k (Expand (keys e))"
    "Matches k (Collapse (keys e))"
  shows "Update e m (KeyPress k) = lift (map_option (\<lambda>m'. (m', [])) (collapseCurrent e m))"
  using assms by (simp add: Update_def handleKey_def handleNormalMode_def)

lemma confirm_key:
  assumes "mode m = ModeConfirmKill" "Matches k (Confirm (keys e))"
  shows "Update e m (KeyPress k) = killCurrent e m False"
  using assms by (simp add: Update_def handleKey_def handleConfirmKillMode_def)

lemma rune_key_is_filter_text:
  assumes "mode m = ModeNormal" "\<not> commandKey e k" "Type k = KeyRunes"
    "filter_text m \<noteq> [] \<or> list_all (\<lambda>d. \<not> Matches k (jumpBinding (keys e) d)) [1..9]"
  shows "Update e m (KeyPress k) =
           Some (rebuildItems e (m\<lparr> filter_text := filter_text m @ Runes k \<rparr>), CmdNil, [])"
  using assms
  by (auto simp: Update_def handleKey_def handleNormalMode_def commandKey_def jumpBinding_def
        upto.simps)


lemma switched_switchTo: "switched e m t (switchTo e m t)"
  by (simp add: switched_def switchTo_def split: option.splits)

lemma switched_success:
  "switched e m t r \<Longrightarrow> SwitchClient e t = None \<Longrightarrow> r = Some (m, TeaQuit, [SwitchClientCall t])"
  by (auto simp: switched_def split: option.splits)


lemma handleJump_collapsed:
  assumes "wellFormed m" "list_all (\<lambda>s. \<not> Expanded s) (sessions m)"
  shows "handleJump e m d = jumpSession e m d"
proof (cases "cursor m \<ge> 0 \<and> cursor m < int (length (items m))")
  case False
  then show ?thesis by (auto simp: handleJump_def)
next
  case True
  then have ok: "itemOK (sessions m) (items m ! nat (cursor m))"
    using wellFormed_item [OF assms(1)] by simp
  then have "nat (SessionIndex (items m ! nat (cursor m))) < length (sessions m)"
    by (auto simp: itemOK_def)
  then have "\<not> Expanded (sessions m ! nat (SessionIndex (items m ! nat (cursor m))))"
    using assms(2) by (simp add: list_all_length)
  with True ok show ?thesis
    by (simp add: handleJump_def Let_def elemAt_def itemOK_def)
qed

section \<open>The sample models, evaluated\<close>

lemma sample_keys:
  "Matches (namedKey s) b = (s \<in> set b)"
  "Matches (runeKey s) b = (s \<in> set b)"
  "keys sampleEnv = sampleKeys" "keys failingList = sampleKeys" "keys listingOne = sampleKeys"
  by (simp_all add: Matches_def namedKey_def runeKey_def sampleEnv_def failingList_def listingOne_def)


lemma asciiLower_lower:
  "asciiLower ''a'' = ''a''" "asciiLower ''a1'' = ''a1''" "asciiLower ''alpha'' = ''alpha''"
  "asciiLower ''beta'' = ''beta''" "asciiLower ''gamma'' = ''gamma''"
  by (simp_all add: asciiLower_def lowerChar_def)

lemma browsing_three:
  "browsing threeSessions [] 2 =
     (New [] noConfig)\<lparr> sessions := threeSessions, cursor := 2,
        items := [\<lparr> IsSession = True, SessionIndex = 0, WindowIndex = 0 \<rparr>,
                  \<lparr> IsSession = True, SessionIndex = 1, WindowIndex = 0 \<rparr>,
                  \<lparr> IsSession = True, SessionIndex = 2, WindowIndex = 0 \<rparr>] \<rparr>"
  by (simp add: browsing_def threeSessions_def New_def rebuildItems_def mkSession_def clampCursor_def)

lemma browsing_two:
  "browsing twoSessions [] 3 =
     (New [] noConfig)\<lparr> sessions := twoSessions, cursor := 3,
        items := [\<lparr> IsSession = True, SessionIndex = 0, WindowIndex = 0 \<rparr>,
                  \<lparr> IsSession = False, SessionIndex = 0, WindowIndex = 0 \<rparr>,
                  \<lparr> IsSession = False, SessionIndex = 0, WindowIndex = 1 \<rparr>,
                  \<lparr> IsSession = True, SessionIndex = 1, WindowIndex = 0 \<rparr>] \<rparr>"
  by (simp add: browsing_def twoSessions_def New_def rebuildItems_def mkSession_def mkWindow_def
        clampCursor_def)


lemma confirming_rows:
  "items (confirming c t) = [\<lparr> IsSession = True, SessionIndex = 0, WindowIndex = 0 \<rparr>,
                  \<lparr> IsSession = False, SessionIndex = 0, WindowIndex = 0 \<rparr>,
                  \<lparr> IsSession = False, SessionIndex = 0, WindowIndex = 1 \<rparr>,
                  \<lparr> IsSession = True, SessionIndex = 1, WindowIndex = 0 \<rparr>]"
  "sessions (confirming c t) = twoSessions"
  "mode (confirming c t) = ModeConfirmKill"
  "cursor (confirming 1 t) = 1" "cursor (confirming 3 t) = 3"
  by (simp_all add: confirming_def browsing_def twoSessions_def New_def rebuildItems_def
        mkSession_def mkWindow_def clampCursor_def Let_def)

section \<open>C1: the cursor invariant\<close>

lemma run_cursorOK: "\<exists>m'. run (New cur cfg) evs = Some m' \<and> cursorOK m'"
  using run_wellFormed [OF wellFormed_New, of cur cfg evs] by (auto simp: wellFormed_def)

lemma Update_cursorOK:
  assumes "wellFormed m"
  shows "\<exists>m' c fx. Update e m msg = Some (m', c, fx) \<and> cursorOK m'"
  using Update_wellFormed [OF assms, of e msg]
  by (auto simp: returns_def wellFormed_def split: option.splits)

lemma up_key_moves:
  assumes "mode m = ModeNormal" "cursorOK m"
    "\<not> Matches k (Quit (keys e))" "\<not> Matches k (Cancel (keys e))" "Matches k (Up (keys e))"
  shows "\<exists>m'. Update e m (KeyPress k) = Some (m', CmdNil, []) \<and> items m' = items m
              \<and> cursor m' = max 0 (cursor m - 1)"
  using assms
  by (auto simp: Update_def handleKey_def handleNormalMode_def cursorOK_def split: if_splits)

lemma down_key_moves:
  assumes "mode m = ModeNormal" "cursorOK m" "items m \<noteq> []"
    "\<not> Matches k (Quit (keys e))" "\<not> Matches k (Cancel (keys e))" "\<not> Matches k (Up (keys e))"
    "Matches k (Down (keys e))"
  shows "\<exists>m'. Update e m (KeyPress k) = Some (m', CmdNil, []) \<and> items m' = items m
              \<and> cursor m' = min (int (length (items m)) - 1) (cursor m + 1)"
  using assms
  by (auto simp: Update_def handleKey_def handleNormalMode_def cursorOK_def split: if_splits)

lemma rebuild_clamps:
  "cursor (rebuildItems e m) =
     (let n = int (length (items (rebuildItems e m))) in
      if n = 0 then 0 else if cursor m \<ge> n then n - 1 else if cursor m < 0 then 0 else cursor m)"
  by (auto simp: cursor_rebuildItems items_rebuildItems clampCursor_def Let_def)

text \<open>
  Claim C1. After every event the cursor is a valid index into the rows, or 0 when there
  are none: this holds after every sequence of events from the initial model, against any
  environment, and no handler panics on the way; it holds after one event from any
  well-formed model. Up moves the cursor one row up and stops at row 0, Down moves it one
  row down and stops at the last row, neither wraps around. Every rebuild leaves the
  cursor at 0 when there are no rows, at the last row when it was beyond it, at 0 when it
  was negative, and where it was otherwise.
\<close>

theorem cursor_stays_valid:
  "(\<exists>m'. run (New cur cfg) evs = Some m' \<and> cursorOK m')
   \<and> (wellFormed m \<longrightarrow> (\<exists>m' c fx. Update e m msg = Some (m', c, fx) \<and> cursorOK m'))
   \<and> (mode m = ModeNormal \<and> cursorOK m
        \<and> \<not> Matches ku (Quit (keys e)) \<and> \<not> Matches ku (Cancel (keys e)) \<and> Matches ku (Up (keys e))
       \<longrightarrow> (\<exists>m'. Update e m (KeyPress ku) = Some (m', CmdNil, []) \<and> items m' = items m
                 \<and> cursor m' = max 0 (cursor m - 1)))
   \<and> (mode m = ModeNormal \<and> cursorOK m \<and> items m \<noteq> []
        \<and> \<not> Matches kd (Quit (keys e)) \<and> \<not> Matches kd (Cancel (keys e))
        \<and> \<not> Matches kd (Up (keys e)) \<and> Matches kd (Down (keys e))
       \<longrightarrow> (\<exists>m'. Update e m (KeyPress kd) = Some (m', CmdNil, []) \<and> items m' = items m
                 \<and> cursor m' = min (int (length (items m)) - 1) (cursor m + 1)))
   \<and> cursor (rebuildItems e m2) =
       (let n = int (length (items (rebuildItems e m2))) in
        if n = 0 then 0 else if cursor m2 \<ge> n then n - 1
        else if cursor m2 < 0 then 0 else cursor m2)"
  using run_cursorOK [of cur cfg evs] Update_cursorOK [of m e msg]
    up_key_moves [of m ku e] down_key_moves [of m kd e] rebuild_clamps [of e m2]
  by blast

text \<open>
  An instance: three sessions with the cursor on the last one. Down stays on row 2, Up goes
  to row 1, an empty data-fetch result leaves a valid cursor, and a rebuild with the cursor
  at 9 puts it back on row 2.
\<close>

theorem cursor_stays_valid_witness:
  "(\<exists>m'. run (New [] noConfig) downThrice = Some m' \<and> cursorOK m')
   \<and> (\<exists>m' c fx. Update sampleEnv (browsing threeSessions [] 2) (SessionsMsg []) = Some (m', c, fx)
          \<and> cursorOK m')
   \<and> (\<exists>m'. Update sampleEnv (browsing threeSessions [] 2) (KeyPress (namedKey ''up'')) = Some (m', CmdNil, [])
          \<and> items m' = items (browsing threeSessions [] 2) \<and> cursor m' = 1)
   \<and> (\<exists>m'. Update sampleEnv (browsing threeSessions [] 2) (KeyPress (namedKey ''down'')) = Some (m', CmdNil, [])
          \<and> items m' = items (browsing threeSessions [] 2) \<and> cursor m' = 2)
   \<and> cursor (rebuildItems sampleEnv ((browsing threeSessions [] 2)\<lparr> cursor := 9 \<rparr>)) = 2"
proof -
  let ?m = "browsing threeSessions [] 2"
  have wf: "wellFormed ?m"
    by (simp add: browsing_def wellFormed_rebuildItems)
  have cur: "cursorOK ?m \<and> mode ?m = ModeNormal \<and> items ?m \<noteq> [] \<and> cursor ?m = 2
    \<and> length (items ?m) = 3"
    by (simp add: browsing_three cursorOK_def New_def)
  have keys: "\<not> Matches (namedKey ''up'') (Quit (keys sampleEnv))"
    "\<not> Matches (namedKey ''up'') (Cancel (keys sampleEnv))"
    "Matches (namedKey ''up'') (Up (keys sampleEnv))"
    "\<not> Matches (namedKey ''down'') (Quit (keys sampleEnv))"
    "\<not> Matches (namedKey ''down'') (Cancel (keys sampleEnv))"
    "\<not> Matches (namedKey ''down'') (Up (keys sampleEnv))"
    "Matches (namedKey ''down'') (Down (keys sampleEnv))"
    by (simp_all add: Matches_def namedKey_def sampleEnv_def sampleKeys_def)
  have n: "int (length (items (rebuildItems sampleEnv (?m\<lparr> cursor := 9 \<rparr>)))) = 3"
    by (simp add: browsing_three items_rebuildItems) code_simp
  show ?thesis
    using cursor_stays_valid [of "[]" noConfig downThrice ?m sampleEnv "SessionsMsg []"
        "namedKey ''up''" "namedKey ''down''" "?m\<lparr> cursor := 9 \<rparr>"] wf cur keys n
    by (simp add: Let_def)
qed

section \<open>C2: what the flattener computes\<close>

text \<open>
  Claim C2. \<open>rebuildItems\<close> computes its rows from the sessions and the filter text alone:
  the rows are exactly those of the specification's description (sessions in their given
  order; a session row for each session whose name contains the filter as a
  case-insensitive literal substring, every session when the filter is empty; directly
  after the row of an expanded session one window row per window, in stored order; nothing
  else, nothing reordered). Two models with the same sessions and filter get the same rows,
  and the session rows are exactly the rows of the sessions that pass the filter.
\<close>

theorem rebuildItems_is_visibleRows:
  "items (rebuildItems e m) = visibleRows e (sessions m) (filter_text m)
   \<and> (sessions m' = sessions m \<and> filter_text m' = filter_text m
        \<longrightarrow> items (rebuildItems e m') = items (rebuildItems e m))
   \<and> filter IsSession (items (rebuildItems e m)) =
        map (\<lambda>(i, s). \<lparr> IsSession = True, SessionIndex = int i, WindowIndex = 0 \<rparr>)
          (filter (\<lambda>(i, s). passesFilter e (filter_text m) s) (enumerate 0 (sessions m)))"
  by (simp add: items_rebuildItems) (simp add: visibleRows_def sessionRows_only_sessions)

text \<open>
  An instance: three sessions, the first two expanded, filter \<open>aL\<close>. \<open>Alpha\<close> and \<open>gALa\<close>
  pass, \<open>beta\<close> does not, and only \<open>Alpha\<close> shows its two windows.
\<close>

theorem rebuildItems_is_visibleRows_witness:
  "items (rebuildItems sampleEnv (browsing mixedSessions ''aL'' 7)) =
     [\<lparr> IsSession = True, SessionIndex = 0, WindowIndex = 0 \<rparr>,
      \<lparr> IsSession = False, SessionIndex = 0, WindowIndex = 0 \<rparr>,
      \<lparr> IsSession = False, SessionIndex = 0, WindowIndex = 1 \<rparr>,
      \<lparr> IsSession = True, SessionIndex = 2, WindowIndex = 0 \<rparr>]
   \<and> items (rebuildItems sampleEnv ((browsing mixedSessions ''aL'' 7)\<lparr> cursor := 0, message := ''x'' \<rparr>)) =
       items (rebuildItems sampleEnv (browsing mixedSessions ''aL'' 7))
   \<and> filter IsSession (items (rebuildItems sampleEnv (browsing mixedSessions ''aL'' 7))) =
     [\<lparr> IsSession = True, SessionIndex = 0, WindowIndex = 0 \<rparr>,
      \<lparr> IsSession = True, SessionIndex = 2, WindowIndex = 0 \<rparr>]"
proof -
  let ?m = "browsing mixedSessions ''aL'' 7"
  have rows: "visibleRows sampleEnv (sessions ?m) (filter_text ?m) =
     [\<lparr> IsSession = True, SessionIndex = 0, WindowIndex = 0 \<rparr>,
      \<lparr> IsSession = False, SessionIndex = 0, WindowIndex = 0 \<rparr>,
      \<lparr> IsSession = False, SessionIndex = 0, WindowIndex = 1 \<rparr>,
      \<lparr> IsSession = True, SessionIndex = 2, WindowIndex = 0 \<rparr>]"
    by code_simp
  have sel: "map (\<lambda>(i, s). \<lparr> IsSession = True, SessionIndex = int i, WindowIndex = 0 \<rparr>)
          (filter (\<lambda>(i, s). passesFilter sampleEnv (filter_text ?m) s) (enumerate 0 (sessions ?m)))
        = [\<lparr> IsSession = True, SessionIndex = 0, WindowIndex = 0 \<rparr>,
      \<lparr> IsSession = True, SessionIndex = 2, WindowIndex = 0 \<rparr>]"
    by code_simp
  have same: "sessions (?m\<lparr> cursor := 0, message := ''x'' \<rparr>) = sessions ?m
              \<and> filter_text (?m\<lparr> cursor := 0, message := ''x'' \<rparr>) = filter_text ?m"
    by simp
  show ?thesis
    using rebuildItems_is_visibleRows [of sampleEnv ?m "?m\<lparr> cursor := 0, message := ''x'' \<rparr>"] rows sel same
    by simp
qed

section \<open>C3: at most one session is expanded\<close>

lemma whenReturns_Some [simp]: "whenReturns P (Some (m', x)) = P m'"
  by (simp add: whenReturns_def)

lemma whenReturns_None [simp]: "whenReturns P None = True"
  by (simp add: whenReturns_def)

lemma whenReturns_lift [simp]: "whenReturns P (lift r) = whenReturns P r"
  by (auto simp: whenReturns_def lift_def split: option.splits)

lemma no_expanded_after_collapse:
  "filter Expanded (map (\<lambda>s. s\<lparr> Expanded := False \<rparr>) ss) = []"
  by (induction ss) auto

lemma one_expanded_after_update:
  "filter Expanded xs = [] \<Longrightarrow> length (filter Expanded (xs[i := x])) \<le> 1"
proof (induction xs arbitrary: i)
  case Nil
  then show ?case by simp
next
  case (Cons a xs)
  then show ?case by (cases i) (auto split: if_splits)
qed

lemma fewer_expanded_after_collapse:
  "length (filter Expanded (xs[i := x\<lparr> Expanded := False \<rparr>])) \<le> length (filter Expanded xs)"
proof (induction xs arbitrary: i)
  case Nil
  then show ?case by simp
next
  case (Cons a xs)
  show ?case
  proof (cases i)
    case 0
    then show ?thesis by simp
  next
    case (Suc j)
    then show ?thesis using Cons.IH [of j] by simp
  qed
qed

lemma switchTo_sessions: "whenReturns (\<lambda>m'. sessions m' = sessions m) (switchTo e m t)"
  by (simp add: switchTo_def split: option.splits)

lemma jumpSession_sessions: "whenReturns (\<lambda>m'. sessions m' = sessions m) (jumpSession e m n)"
  by (simp add: jumpSession_def Let_def switchTo_sessions)

lemma handleJump_sessions: "whenReturns (\<lambda>m'. sessions m' = sessions m) (handleJump e m n)"
  by (simp add: handleJump_def Let_def switchTo_sessions jumpSession_sessions
        split: option.splits)

lemma selectCurrent_sessions: "whenReturns (\<lambda>m'. sessions m' = sessions m) (selectCurrent e m)"
  by (simp add: selectCurrent_def switchTo_sessions split: option.splits)

lemma confirmKill_sessions: "whenReturns (\<lambda>m'. sessions m' = sessions m) (confirmKill m)"
  by (simp add: confirmKill_def Let_def split: option.splits)

lemma killDone_sessions [simp]: "sessions (killDone m err t) = sessions m"
  by (simp add: killDone_def Let_def split: option.splits)

lemma killCurrent_sessions: "whenReturns (\<lambda>m'. sessions m' = sessions m) (killCurrent e m b)"
  by (simp add: killCurrent_def Let_def split: option.splits)

lemma createSession_sessions: "whenReturns (\<lambda>m'. sessions m' = sessions m) (createSession e m n)"
  by (simp add: createSession_def Let_def split: option.splits)

lemma whenReturns_same_sessions:
  "atMostOneExpanded (sessions m) \<Longrightarrow> whenReturns (\<lambda>m'. sessions m' = sessions m) r
   \<Longrightarrow> whenReturns (\<lambda>m'. atMostOneExpanded (sessions m')) r"
  by (auto simp: whenReturns_def split: option.splits)

lemma collapsed_exclusive:
  "atMostOneExpanded (map (\<lambda>s. s\<lparr> Expanded := False \<rparr>) ss)"
  "atMostOneExpanded ((map (\<lambda>s. s\<lparr> Expanded := False \<rparr>) ss)[i := x])"
  using one_expanded_after_update [OF no_expanded_after_collapse, of ss i x]
  by (simp_all add: atMostOneExpanded_def no_expanded_after_collapse)

lemma collapse_one_exclusive:
  "atMostOneExpanded ss \<Longrightarrow> atMostOneExpanded (ss[i := x\<lparr> Expanded := False \<rparr>])"
  unfolding atMostOneExpanded_def
  by (rule order_trans [OF fewer_expanded_after_collapse])

lemma expandCurrent_exclusive:
  "atMostOneExpanded (sessions m) \<Longrightarrow>
   whenReturns (\<lambda>m'. atMostOneExpanded (sessions m')) (expandCurrent e m)"
  by (simp add: expandCurrent_def Let_def collapsed_exclusive split: option.splits sum.splits)

lemma collapseCurrent_exclusive:
  "atMostOneExpanded (sessions m) \<Longrightarrow>
   whenReturns (\<lambda>m'. atMostOneExpanded (sessions m'))
     (map_option (\<lambda>m'. (m', [])) (collapseCurrent e m))"
  by (simp add: collapseCurrent_def Let_def collapse_one_exclusive split: option.splits)

lemma handleNormalMode_exclusive:
  assumes "atMostOneExpanded (sessions m)"
  shows "whenReturns (\<lambda>m'. atMostOneExpanded (sessions m')) (handleNormalMode e m k)"
  using assms
  by (simp add: handleNormalMode_def expandCurrent_exclusive collapseCurrent_exclusive
        whenReturns_same_sessions [OF _ handleJump_sessions]
        whenReturns_same_sessions [OF _ selectCurrent_sessions]
        whenReturns_same_sessions [OF _ confirmKill_sessions])

lemma handleConfirmKillMode_exclusive:
  assumes "atMostOneExpanded (sessions m)"
  shows "whenReturns (\<lambda>m'. atMostOneExpanded (sessions m')) (handleConfirmKillMode e m k)"
  using assms
  by (simp add: handleConfirmKillMode_def whenReturns_same_sessions [OF _ killCurrent_sessions])

lemma handleCreateMode_exclusive:
  assumes "atMostOneExpanded (sessions m)"
  shows "whenReturns (\<lambda>m'. atMostOneExpanded (sessions m')) (handleCreateMode e m k)"
  using assms
  by (simp add: handleCreateMode_def Let_def whenReturns_same_sessions [OF _ createSession_sessions]
        split: prod.splits)

lemma Update_exclusive:
  assumes "atMostOneExpanded (sessions m)"
    and "\<forall>ss. msg = SessionsMsg ss \<longrightarrow> atMostOneExpanded ss"
  shows "whenReturns (\<lambda>m'. atMostOneExpanded (sessions m')) (Update e m msg)"
  using assms
  by (cases msg)
     (simp_all add: Update_def handleKey_def Let_def loadClaudeStatuses_def calculateColumnWidths_def
        handleNormalMode_exclusive handleConfirmKillMode_exclusive handleCreateMode_exclusive
        split: prod.splits Mode.splits)

lemma expand_success_flags:
  assumes "0 \<le> cursor m" "cursor m < int (length (items m))"
    and "IsSession (items m ! nat (cursor m))"
    and "SessionIndex (items m ! nat (cursor m)) = int i" "i < length (sessions m)"
    and "Windows (sessions m ! i) \<noteq> [] \<or> ListWindows e (Name (sessions m ! i)) = Inr ws"
  shows "\<exists>m' fx. expandCurrent e m = Some (m', fx) \<and> length (sessions m') = length (sessions m)
           \<and> (\<forall>j < length (sessions m). Expanded (sessions m' ! j) = (j = i))"
  using assms
  by (auto simp: expandCurrent_def Let_def elemAt_def nth_list_update)

lemma expand_failure_flags:
  assumes "0 \<le> cursor m" "cursor m < int (length (items m))"
    and "IsSession (items m ! nat (cursor m))"
    and "SessionIndex (items m ! nat (cursor m)) = int i" "i < length (sessions m)"
    and "Windows (sessions m ! i) = []" "ListWindows e (Name (sessions m ! i)) = Inl err"
  shows "\<exists>m'. expandCurrent e m = Some (m', [ListWindowsCall (Name (sessions m ! i))])
           \<and> length (sessions m') = length (sessions m)
           \<and> (\<forall>j < length (sessions m). \<not> Expanded (sessions m' ! j))
           \<and> items m' = items m"
  using assms
  by (auto simp: expandCurrent_def Let_def elemAt_def)

lemma Update_no_panic: "wellFormed m \<Longrightarrow> \<exists>r. Update e m msg = Some r"
  using Update_wellFormed [of m e msg] by (auto simp: returns_def split: option.splits)

text \<open>
  Claim C3. Expansion is exclusive: from a model with at most one expanded session, after
  any event that is handled (a key in any mode, a data-fetch result whose sessions have at
  most one expanded session, as freshly listed sessions do, an error, a message-clear
  tick) at most one session is expanded; and from a well-formed model every event is
  handled. An Expand keystroke on the row of session \<open>i\<close> whose windows are loaded or can
  be listed leaves session \<open>i\<close> expanded and every other session collapsed; when listing
  its windows fails, every session is left collapsed.
\<close>

theorem expansion_is_exclusive:
  "(atMostOneExpanded (sessions m) \<and> (\<forall>ss. msg = SessionsMsg ss \<longrightarrow> atMostOneExpanded ss)
      \<and> Update e m msg = Some (m', c, fx)
     \<longrightarrow> atMostOneExpanded (sessions m'))
   \<and> (wellFormed m \<longrightarrow> (\<exists>r. Update e m msg = Some r))
   \<and> (mode m = ModeNormal \<and> \<not> Matches k (Quit (keys e)) \<and> \<not> Matches k (Cancel (keys e))
        \<and> \<not> Matches k (Up (keys e)) \<and> \<not> Matches k (Down (keys e)) \<and> Matches k (Expand (keys e))
        \<and> 0 \<le> cursor m \<and> cursor m < int (length (items m))
        \<and> IsSession (items m ! nat (cursor m))
        \<and> SessionIndex (items m ! nat (cursor m)) = int i \<and> i < length (sessions m)
      \<longrightarrow>
        ((Windows (sessions m ! i) \<noteq> [] \<or> ListWindows e (Name (sessions m ! i)) = Inr ws)
          \<longrightarrow> (\<exists>m1 fx1. Update e m (KeyPress k) = Some (m1, CmdNil, fx1)
                 \<and> length (sessions m1) = length (sessions m)
                 \<and> (\<forall>j < length (sessions m). Expanded (sessions m1 ! j) = (j = i))))
        \<and> ((Windows (sessions m ! i) = [] \<and> ListWindows e (Name (sessions m ! i)) = Inl err)
          \<longrightarrow> (\<exists>m1. Update e m (KeyPress k) =
                         Some (m1, CmdNil, [ListWindowsCall (Name (sessions m ! i))])
                 \<and> length (sessions m1) = length (sessions m)
                 \<and> (\<forall>j < length (sessions m). \<not> Expanded (sessions m1 ! j)))))"
proof (intro conjI impI)
  assume a: "atMostOneExpanded (sessions m) \<and> (\<forall>ss. msg = SessionsMsg ss \<longrightarrow> atMostOneExpanded ss)
      \<and> Update e m msg = Some (m', c, fx)"
  then show "atMostOneExpanded (sessions m')"
    using Update_exclusive [of m msg e] by (simp add: whenReturns_def)
next
  assume "wellFormed m"
  then show "\<exists>r. Update e m msg = Some r" by (rule Update_no_panic)
next
  assume k: "mode m = ModeNormal \<and> \<not> Matches k (Quit (keys e)) \<and> \<not> Matches k (Cancel (keys e))
        \<and> \<not> Matches k (Up (keys e)) \<and> \<not> Matches k (Down (keys e)) \<and> Matches k (Expand (keys e))
        \<and> 0 \<le> cursor m \<and> cursor m < int (length (items m))
        \<and> IsSession (items m ! nat (cursor m))
        \<and> SessionIndex (items m ! nat (cursor m)) = int i \<and> i < length (sessions m)"
  then have U: "Update e m (KeyPress k) = lift (expandCurrent e m)"
    by (simp add: expand_key)
  {
    assume "Windows (sessions m ! i) \<noteq> [] \<or> ListWindows e (Name (sessions m ! i)) = Inr ws"
    with k expand_success_flags [of m i e ws]
    show "\<exists>m1 fx1. Update e m (KeyPress k) = Some (m1, CmdNil, fx1)
                 \<and> length (sessions m1) = length (sessions m)
                 \<and> (\<forall>j < length (sessions m). Expanded (sessions m1 ! j) = (j = i))"
      unfolding U by (auto simp: lift_def)
  next
    assume "Windows (sessions m ! i) = [] \<and> ListWindows e (Name (sessions m ! i)) = Inl err"
    with k expand_failure_flags [of m i e err]
    show "\<exists>m1. Update e m (KeyPress k) =
                         Some (m1, CmdNil, [ListWindowsCall (Name (sessions m ! i))])
                 \<and> length (sessions m1) = length (sessions m)
                 \<and> (\<forall>j < length (sessions m). \<not> Expanded (sessions m1 ! j))"
      unfolding U by (auto simp: lift_def)
  }
qed

text \<open>
  An instance: \<open>alpha\<close> is expanded and the cursor is on \<open>beta\<close>, whose windows are not
  loaded. Expanding \<open>beta\<close> leaves \<open>beta\<close> alone expanded when tmux lists its windows, and no
  session expanded when tmux fails.
\<close>

theorem expansion_is_exclusive_witness:
  "(\<exists>m' c fx. Update listingOne (browsing twoSessions [] 3) (KeyPress (namedKey ''right'')) = Some (m', c, fx)
       \<and> atMostOneExpanded (sessions m'))
   \<and> (\<exists>m1 fx1. Update listingOne (browsing twoSessions [] 3) (KeyPress (namedKey ''right''))
          = Some (m1, CmdNil, fx1)
        \<and> \<not> Expanded (sessions m1 ! 0) \<and> Expanded (sessions m1 ! 1))
   \<and> (\<exists>m1. Update failingList (browsing twoSessions [] 3) (KeyPress (namedKey ''right''))
          = Some (m1, CmdNil, [ListWindowsCall ''beta''])
        \<and> \<not> Expanded (sessions m1 ! 0) \<and> \<not> Expanded (sessions m1 ! 1))"
proof -
  let ?m = "browsing twoSessions [] 3"
  let ?k = "namedKey ''right''"
  have wf: "wellFormed ?m"
    by (simp add: browsing_def wellFormed_rebuildItems)
  have start: "atMostOneExpanded (sessions ?m)"
    unfolding browsing_two by (simp add: atMostOneExpanded_def twoSessions_def mkSession_def)
  have row: "mode ?m = ModeNormal \<and> 0 \<le> cursor ?m \<and> cursor ?m < int (length (items ?m))
      \<and> IsSession (items ?m ! nat (cursor ?m))
      \<and> SessionIndex (items ?m ! nat (cursor ?m)) = int 1 \<and> 1 < length (sessions ?m)
      \<and> Windows (sessions ?m ! 1) = [] \<and> Name (sessions ?m ! 1) = ''beta''
      \<and> length (sessions ?m) = 2"
    unfolding browsing_two by (simp add: New_def twoSessions_def mkSession_def)
  have key: "\<not> Matches ?k (Quit sampleKeys) \<and> \<not> Matches ?k (Cancel sampleKeys)
      \<and> \<not> Matches ?k (Up sampleKeys) \<and> \<not> Matches ?k (Down sampleKeys)
      \<and> Matches ?k (Expand sampleKeys)"
    by (simp add: sample_keys sampleKeys_def)
  have ok: "ListWindows listingOne ''beta'' = Inr [mkWindow 1 ''shell'']"
    and bad: "ListWindows failingList ''beta'' = Inl ''no server''"
    by (simp_all add: listingOne_def failingList_def)
  note thm1 = expansion_is_exclusive [of ?m "KeyPress ?k" listingOne _ _ _ ?k 1 "[mkWindow 1 ''shell'']" "''no server''"]
  note thm2 = expansion_is_exclusive [of ?m "KeyPress ?k" failingList _ _ _ ?k 1 "[]" "''no server''"]
  from thm1 wf obtain m' c fx where r: "Update listingOne ?m (KeyPress ?k) = Some (m', c, fx)"
    by (metis prod_cases3)
  with thm1 [of m' c fx] start have one: "atMostOneExpanded (sessions m')" by simp
  have two: "\<exists>m1 fx1. Update listingOne ?m (KeyPress ?k) = Some (m1, CmdNil, fx1)
        \<and> \<not> Expanded (sessions m1 ! 0) \<and> Expanded (sessions m1 ! 1)"
    using thm1 row key ok by (simp add: sample_keys) fastforce
  have three: "\<exists>m1. Update failingList ?m (KeyPress ?k) = Some (m1, CmdNil, [ListWindowsCall ''beta''])
        \<and> \<not> Expanded (sessions m1 ! 0) \<and> \<not> Expanded (sessions m1 ! 1)"
    using thm2 row key bad by (simp add: sample_keys) fastforce
  from r one two three show ?thesis by blast
qed

section \<open>C4: jump addressing\<close>




section \<open>C5: window rows and expansion\<close>

lemma windowsUnderExpanded_rebuildItems: "windowsUnderExpanded e (rebuildItems e m)"
  by (auto simp: windowsUnderExpanded_def items_rebuildItems list_all_iff visibleRows_def
        sessionRows_def windowRows_def in_set_enumerate_eq elemAt_def split: if_splits)

text \<open>
  Claim C5. A window row is in the row sequence only under a session that is expanded and
  passes the filter; the claim asks for this after every event, the failed expansion
  included. Every rebuild establishes it (\<open>windowsUnderExpanded_rebuildItems\<close>), but the
  failure branch of \<open>expandCurrent\<close> returns after collapsing every session and before
  rebuilding. The run below starts from the initial model: two sessions arrive, \<open>alpha\<close> is
  expanded (one window), the cursor goes down to \<open>beta\<close>, and expanding \<open>beta\<close> fails in
  tmux. The rows still hold the window row of \<open>alpha\<close>, and \<open>alpha\<close> is collapsed.
\<close>

theorem failed_expand_leaves_stale_window_row:
  "map_option (\<lambda>m. (items m, map Expanded (sessions m), cursor m, message m, windowsUnderExpanded failingList m))
     (run (New [] noConfig) staleRun)
   = Some ([\<lparr> IsSession = True, SessionIndex = 0, WindowIndex = 0 \<rparr>,
            \<lparr> IsSession = False, SessionIndex = 0, WindowIndex = 0 \<rparr>,
            \<lparr> IsSession = True, SessionIndex = 1, WindowIndex = 0 \<rparr>],
           [False, False], 2, ''Error loading windows: no server'', False)"
  by code_simp

section \<open>C6: submitting in Create mode\<close>

lemma create_submit_blank:
  assumes "mode m = ModeCreate" "\<not> Matches k (Cancel (keys e))" "Type k = KeyEnter"
    "TrimSpace e (Value (input m)) = []"
  shows "Update e m (KeyPress k) =
           Some (m\<lparr> message := ''Session name cannot be empty'', messageIsError := True \<rparr>, CmdNil, [])"
  using assms by (simp add: Update_def handleKey_def handleCreateMode_def)

lemma create_submit_refused:
  assumes "mode m = ModeCreate" "\<not> Matches k (Cancel (keys e))" "Type k = KeyEnter"
    "TrimSpace e (Value (input m)) \<noteq> []"
    "CreateSession e (TrimSpace e (Value (input m))) (HOME e) = Some err"
  shows "\<exists>m'. Update e m (KeyPress k) =
            Some (m', CmdNil, [CreateSessionCall (TrimSpace e (Value (input m))) (HOME e)])
          \<and> mode m' = ModeNormal \<and> message m' = ''Error: '' @ err \<and> messageIsError m'"
  using assms by (simp add: Update_def handleKey_def handleCreateMode_def createSession_def)

text \<open>
  Claim C6. Submitting in Create mode: blank text keeps the mode and shows a validation
  message without any command (\<open>create_submit_blank\<close>); a refused create command shows the
  error and returns to Normal without a switch (\<open>create_submit_refused\<close>). The claim also
  has the mode Normal after a create command unless the picker quits after a successful
  switch. The run below enters Create mode from the initial model and types \<open>dev\<close>; on
  Enter tmux creates the session and refuses the switch. The create and the switch
  command are issued, the picker does not quit, and the mode is still Create.
\<close>

theorem created_but_not_switched_stays_in_create:
  "map_option (\<lambda>m. (mode m, Value (input m))) (run (New [] noConfig) createRun)
     = Some (ModeCreate, ''dev'')
   \<and> map_option (\<lambda>r. (mode (fst r), message (fst r), messageIsError (fst r), snd r))
       (Option.bind (run (New [] noConfig) createRun)
          (\<lambda>m. Update failingSwitch m (KeyPress enterKey)))
     = Some (ModeCreate, ''Created but failed to switch: no client'', True, LoadSessions,
             [CreateSessionCall ''dev'' ''/home/u'', SwitchClientCall ''dev''])"
  by code_simp

section \<open>C7: a digit under an active filter\<close>

lemma three_names:
  assumes "map Name ss = [a, b, c]"
  obtains s1 s2 s3 where "ss = [s1, s2, s3]" "Name s1 = a" "Name s2 = b" "Name s3 = c"
  using assms by (auto simp: map_eq_Cons_conv)

lemma visibleNames_three:
  assumes "sessions m = [s1, s2, s3]" "items m = visibleRows e (sessions m) flt"
    "passesFilter e flt s1" "passesFilter e flt s2" "passesFilter e flt s3"
  shows "visibleNames m = [Name s1, Name s2, Name s3]"
  using assms
  by (simp add: visibleNames_def visibleRows_def filter_sessionRows enumerate_eq_zip upt_rec)

text \<open>
  Claim C7, as amended. With the filter \<open>a\<close> over the sessions \<open>alpha\<close>, \<open>beta\<close>, \<open>gamma\<close> the
  visible order is \<open>alpha\<close>, \<open>beta\<close>, \<open>gamma\<close>. Pressing the digit 1 in that state is filter
  text: the filter becomes \<open>a1\<close>, no row is left, and no command is issued. Digits jump only
  while the filter is empty: there, with the same sessions collapsed, the digit 1 issues the
  switch command for \<open>alpha\<close>.
\<close>

theorem digit_under_filter_is_text:
  assumes "map Name (sessions m) = [''alpha'', ''beta'', ''gamma'']"
    and "ToLower e ''a'' = ''a''" and "ToLower e ''a1'' = ''a1''"
    and "ToLower e ''alpha'' = ''alpha''" and "ToLower e ''beta'' = ''beta''"
    and "ToLower e ''gamma'' = ''gamma''"
    and "mode m = ModeNormal" and "filter_text m = ''a''"
    and "items m = visibleRows e (sessions m) ''a''"
    and "Type k = KeyRunes" and "Runes k = ''1''" and "\<not> commandKey e k"
  shows "visibleNames m = [''alpha'', ''beta'', ''gamma'']
    \<and> (\<exists>m'. Update e m (KeyPress k) = Some (m', CmdNil, [])
           \<and> filter_text m' = ''a1'' \<and> items m' = [] \<and> sessions m' = sessions m)
    \<and> (mode m0 = ModeNormal \<and> filter_text m0 = [] \<and> wellFormed m0 \<and> sessions m0 = sessions m
         \<and> list_all (\<lambda>s. \<not> Expanded s) (sessions m0) \<and> jumpKey e k 1
        \<longrightarrow> switched e m0 ''alpha'' (Update e m0 (KeyPress k)))"
proof -
  from assms(1) obtain s1 s2 s3 where ss: "sessions m = [s1, s2, s3]"
    and n: "Name s1 = ''alpha''" "Name s2 = ''beta''" "Name s3 = ''gamma''"
    by (rule three_names)
  have pass: "passesFilter e ''a'' s1" "passesFilter e ''a'' s2" "passesFilter e ''a'' s3"
    by (simp_all add: passesFilter_def n assms(2,4-6) Contains_sublist [symmetric])
  have fail: "\<not> passesFilter e ''a1'' s1" "\<not> passesFilter e ''a1'' s2" "\<not> passesFilter e ''a1'' s3"
    by (simp_all add: passesFilter_def n assms(3-6) Contains_sublist [symmetric])
  have one: "visibleNames m = [''alpha'', ''beta'', ''gamma'']"
    using visibleNames_three [OF ss assms(9) pass] n by simp
  have "Update e m (KeyPress k) =
          Some (rebuildItems e (m\<lparr> filter_text := filter_text m @ Runes k \<rparr>), CmdNil, [])"
    using assms(7,8,10,12) by (simp add: rune_key_is_filter_text)
  moreover have "items (rebuildItems e (m\<lparr> filter_text := ''a1'' \<rparr>)) = []"
    using fail by (simp add: items_rebuildItems visibleRows_def ss enumerate_eq_zip upt_rec)
  ultimately have two: "\<exists>m'. Update e m (KeyPress k) = Some (m', CmdNil, [])
           \<and> filter_text m' = ''a1'' \<and> items m' = [] \<and> sessions m' = sessions m"
    using assms(8,11) by simp
  have three: "switched e m0 ''alpha'' (Update e m0 (KeyPress k))"
    if h: "mode m0 = ModeNormal \<and> filter_text m0 = [] \<and> wellFormed m0 \<and> sessions m0 = sessions m
         \<and> list_all (\<lambda>s. \<not> Expanded s) (sessions m0) \<and> jumpKey e k 1"
  proof -
    from h have "Update e m0 (KeyPress k) = handleJump e m0 1"
      by (simp add: jump_dispatch)
    also have "\<dots> = jumpSession e m0 1"
      using h handleJump_collapsed [of m0 e 1] by blast
    also from h have "\<dots> = switchTo e m0 ''alpha''"
      by (simp add: jumpSession_def ss n)
    finally show ?thesis by (simp add: switched_switchTo)
  qed
  from one two three show ?thesis by blast
qed

text \<open>
  The instance of the claim, with digits bound to the jumps: under the filter \<open>a\<close> the digit
  1 empties the list; with the empty filter it switches to \<open>alpha\<close> and the picker quits.
\<close>

theorem digit_under_filter_is_text_witness:
  "visibleNames (browsing threeSessions ''a'' 0) = [''alpha'', ''beta'', ''gamma'']
   \<and> (\<exists>m'. Update sampleEnv (browsing threeSessions ''a'' 0) (KeyPress (runeKey ''1''))
              = Some (m', CmdNil, [])
          \<and> filter_text m' = ''a1'' \<and> items m' = [])
   \<and> Update sampleEnv (browsing threeSessions [] 0) (KeyPress (runeKey ''1''))
       = Some (browsing threeSessions [] 0, TeaQuit, [SwitchClientCall ''alpha''])"
proof -
  let ?m = "browsing threeSessions ''a'' 0"
  let ?n = "browsing threeSessions [] 0"
  let ?k = "runeKey ''1''"
  have st: "map Name (sessions ?m) = [''alpha'', ''beta'', ''gamma'']"
    "mode ?m = ModeNormal" "filter_text ?m = ''a''"
    "items ?m = visibleRows sampleEnv (sessions ?m) ''a''"
    by (simp_all add: browsing_def items_rebuildItems threeSessions_def mkSession_def New_def)
  have lower: "ToLower sampleEnv = asciiLower"
    by (simp add: sampleEnv_def)
  have key: "Type ?k = KeyRunes" "Runes ?k = ''1''" "\<not> commandKey sampleEnv ?k"
    "jumpKey sampleEnv ?k 1"
    by (simp_all add: runeKey_def jumpKey_def commandKey_def jumpBinding_def sample_keys
          sampleKeys_def Matches_def upto.simps)
  have st0: "mode ?n = ModeNormal \<and> filter_text ?n = [] \<and> wellFormed ?n
      \<and> sessions ?n = sessions ?m \<and> list_all (\<lambda>s. \<not> Expanded s) (sessions ?n)"
    by (simp add: browsing_def wellFormed_rebuildItems threeSessions_def mkSession_def New_def)
  have sw: "SwitchClient sampleEnv ''alpha'' = None"
    by (simp add: sampleEnv_def)
  note inst = digit_under_filter_is_text [of ?m sampleEnv ?k ?n, OF st(1) _ _ _ _ _ st(2-4) key(1-3),
      unfolded lower, OF asciiLower_lower]
  from inst st0 key(4) have "switched sampleEnv ?n ''alpha'' (Update sampleEnv ?n (KeyPress ?k))"
    by blast
  then have "Update sampleEnv ?n (KeyPress ?k) = Some (?n, TeaQuit, [SwitchClientCall ''alpha''])"
    using sw by (rule switched_success)
  with inst show ?thesis by blast
qed

text \<open>
  The claim as written has the digit 1 switch to \<open>alpha\<close> while the filter is \<open>a\<close>. On
  that input the controller issues no command at all: the digit goes into the filter.
\<close>

theorem digit_under_filter_counterexample:
  "filter_text (browsing threeSessions ''a'' 0) = ''a''
   \<and> mode (browsing threeSessions ''a'' 0) = ModeNormal
   \<and> visibleNames (browsing threeSessions ''a'' 0) = [''alpha'', ''beta'', ''gamma'']
   \<and> map_option (\<lambda>r. (filter_text (fst r), items (fst r), snd r))
        (Update sampleEnv (browsing threeSessions ''a'' 0) (KeyPress (runeKey ''1'')))
      = Some (''a1'', [], CmdNil, [])"
  by code_simp

section \<open>C8: actions that change nothing\<close>

lemma collapse_collapsed:
  assumes "0 \<le> cursor m" "cursor m < int (length (items m))"
    and "IsSession (items m ! nat (cursor m))"
    and "SessionIndex (items m ! nat (cursor m)) = int i" "i < length (sessions m)"
    and "\<not> Expanded (sessions m ! i)" and "upToDate e m"
  shows "collapseCurrent e m = Some m"
proof -
  have "(sessions m ! i)\<lparr> Expanded := False \<rparr> = sessions m ! i"
    using assms(6) by (cases "sessions m ! i") simp
  then have "m\<lparr> sessions := (sessions m)[i := (sessions m ! i)\<lparr> Expanded := False \<rparr>] \<rparr> = m"
    by simp
  with assms show ?thesis
    by (simp add: collapseCurrent_def Let_def elemAt_def rebuildItems_id)
qed

text \<open>
  Where the rows are up to date with the sessions and the filter, collapsing a session that
  is already collapsed leaves the whole model unchanged and issues no command. Confirming
  a kill while there is no row under the cursor leaves the whole model unchanged and issues
  no command, whatever \<open>killTarget\<close> holds.
\<close>

lemma idle_collapse_and_confirm:
  "(mode m = ModeNormal \<and> \<not> Matches k (Quit (keys e)) \<and> \<not> Matches k (Cancel (keys e))
      \<and> \<not> Matches k (Up (keys e)) \<and> \<not> Matches k (Down (keys e)) \<and> \<not> Matches k (Expand (keys e))
      \<and> Matches k (Collapse (keys e))
      \<and> 0 \<le> cursor m \<and> cursor m < int (length (items m)) \<and> IsSession (items m ! nat (cursor m))
      \<and> SessionIndex (items m ! nat (cursor m)) = int i \<and> i < length (sessions m)
      \<and> \<not> Expanded (sessions m ! i) \<and> upToDate e m
     \<longrightarrow> Update e m (KeyPress k) = Some (m, CmdNil, []))
   \<and> (mode n = ModeConfirmKill \<and> Matches c (Confirm (keys e))
        \<and> (cursor n < 0 \<or> int (length (items n)) \<le> cursor n)
     \<longrightarrow> Update e n (KeyPress c) = Some (n, CmdNil, []))"
proof (intro conjI impI)
  assume h: "mode m = ModeNormal \<and> \<not> Matches k (Quit (keys e)) \<and> \<not> Matches k (Cancel (keys e))
      \<and> \<not> Matches k (Up (keys e)) \<and> \<not> Matches k (Down (keys e)) \<and> \<not> Matches k (Expand (keys e))
      \<and> Matches k (Collapse (keys e))
      \<and> 0 \<le> cursor m \<and> cursor m < int (length (items m)) \<and> IsSession (items m ! nat (cursor m))
      \<and> SessionIndex (items m ! nat (cursor m)) = int i \<and> i < length (sessions m)
      \<and> \<not> Expanded (sessions m ! i) \<and> upToDate e m"
  then have "collapseCurrent e m = Some m"
    using collapse_collapsed [of m i e] by blast
  with h show "Update e m (KeyPress k) = Some (m, CmdNil, [])"
    by (simp add: collapse_key lift_def)
next
  assume h: "mode n = ModeConfirmKill \<and> Matches c (Confirm (keys e))
        \<and> (cursor n < 0 \<or> int (length (items n)) \<le> cursor n)"
  then have "killCurrent e n False = Some (n, CmdNil, [])"
    by (auto simp: killCurrent_def)
  with h show "Update e n (KeyPress c) = Some (n, CmdNil, [])"
    by (simp add: confirm_key)
qed

text \<open>
  An instance: collapsing \<open>beta\<close>, which is collapsed, among three sessions; and confirming
  in Confirm mode over an empty list.
\<close>

lemma idle_collapse_and_confirm_instance:
  "Update sampleEnv (browsing threeSessions [] 1) (KeyPress (namedKey ''left''))
     = Some (browsing threeSessions [] 1, CmdNil, [])
   \<and> Update sampleEnv ((browsing [] [] 0)\<lparr> mode := ModeConfirmKill, killTarget := ''alpha'' \<rparr>)
        (KeyPress (runeKey ''y''))
     = Some ((browsing [] [] 0)\<lparr> mode := ModeConfirmKill, killTarget := ''alpha'' \<rparr>, CmdNil, [])"
proof -
  let ?m = "browsing threeSessions [] 1"
  let ?n = "(browsing [] [] 0)\<lparr> mode := ModeConfirmKill, killTarget := ''alpha'' \<rparr>"
  have up: "upToDate sampleEnv ?m"
    by (simp add: upToDate_def browsing_def items_rebuildItems)
  have rows: "items ?m = [\<lparr> IsSession = True, SessionIndex = 0, WindowIndex = 0 \<rparr>,
                  \<lparr> IsSession = True, SessionIndex = 1, WindowIndex = 0 \<rparr>,
                  \<lparr> IsSession = True, SessionIndex = 2, WindowIndex = 0 \<rparr>]"
    "cursor ?m = 1" "sessions ?m = threeSessions" "mode ?m = ModeNormal"
    by (simp_all add: browsing_def threeSessions_def New_def rebuildItems_def mkSession_def
          clampCursor_def)
  have st: "mode ?m = ModeNormal \<and> 0 \<le> cursor ?m \<and> cursor ?m < int (length (items ?m))
      \<and> IsSession (items ?m ! nat (cursor ?m))
      \<and> SessionIndex (items ?m ! nat (cursor ?m)) = int 1 \<and> 1 < length (sessions ?m)
      \<and> \<not> Expanded (sessions ?m ! 1)"
    unfolding rows by (simp add: threeSessions_def mkSession_def)
  have key: "\<not> Matches (namedKey ''left'') (Quit (keys sampleEnv))"
    "\<not> Matches (namedKey ''left'') (Cancel (keys sampleEnv))"
    "\<not> Matches (namedKey ''left'') (Up (keys sampleEnv))"
    "\<not> Matches (namedKey ''left'') (Down (keys sampleEnv))"
    "\<not> Matches (namedKey ''left'') (Expand (keys sampleEnv))"
    "Matches (namedKey ''left'') (Collapse (keys sampleEnv))"
    "Matches (runeKey ''y'') (Confirm (keys sampleEnv))"
    by (simp_all add: sample_keys sampleKeys_def)
  have empty: "mode ?n = ModeConfirmKill \<and> (cursor ?n < 0 \<or> int (length (items ?n)) \<le> cursor ?n)"
    by (simp add: browsing_def New_def rebuildItems_def clampCursor_def)
  from idle_collapse_and_confirm [of ?m "namedKey ''left''" sampleEnv 1 ?n "runeKey ''y''"]
    up st key empty
  show ?thesis by blast
qed

lemma sameKill_refl [simp]: "sameKill m m"
  by (simp add: sameKill_def)

lemma sameKill_upd [simp]:
  "sameKill m (m'\<lparr> message := a \<rparr>) = sameKill m m'"
  "sameKill m (m'\<lparr> messageIsError := b \<rparr>) = sameKill m m'"
  "sameKill m (m'\<lparr> input := f \<rparr>) = sameKill m m'"
  "sameKill m (m'\<lparr> cursor := c \<rparr>) = sameKill m m'"
  "sameKill m (m'\<lparr> filter_text := g \<rparr>) = sameKill m m'"
  "sameKill m (rebuildItems e m') = sameKill m m'"
  by (simp_all add: sameKill_def)

lemma targetCaptured_sameKill: "targetCaptured m \<Longrightarrow> sameKill m m' \<Longrightarrow> targetCaptured m'"
  by (simp add: targetCaptured_def sameKill_def)

lemma whenReturns_sameKill:
  "targetCaptured m \<Longrightarrow> whenReturns (sameKill m) r \<Longrightarrow> whenReturns targetCaptured r"
  by (auto simp: whenReturns_def targetCaptured_sameKill split: option.splits)

lemma switchTo_sameKill: "whenReturns (sameKill m) (switchTo e m t)"
  by (simp add: switchTo_def split: option.splits)

lemma jumpSession_sameKill: "whenReturns (sameKill m) (jumpSession e m n)"
  by (simp add: jumpSession_def Let_def switchTo_sameKill)

lemma handleJump_sameKill: "whenReturns (sameKill m) (handleJump e m n)"
  by (simp add: handleJump_def Let_def switchTo_sameKill jumpSession_sameKill split: option.splits)

lemma selectCurrent_sameKill: "whenReturns (sameKill m) (selectCurrent e m)"
  by (simp add: selectCurrent_def switchTo_sameKill split: option.splits)

lemma sessionsNamed_collapsed:
  "sessionsNamed ss \<Longrightarrow> sessionsNamed (map (\<lambda>s. s\<lparr> Expanded := False \<rparr>) ss)"
  by (simp add: sessionsNamed_def list_all_iff)

lemma sessionsNamed_update:
  "sessionsNamed ss \<Longrightarrow> Name x \<noteq> [] \<Longrightarrow> sessionsNamed (ss[i := x])"
  by (auto simp: sessionsNamed_def list_all_iff dest: set_update_subset_insert [THEN subsetD])

lemma sessionsNamed_elemAt:
  "sessionsNamed ss \<Longrightarrow> elemAt ss i = Some s \<Longrightarrow> Name s \<noteq> []"
  by (auto simp: sessionsNamed_def list_all_length elemAt_def split: if_splits)

lemma expandCurrent_targetCaptured:
  assumes "targetCaptured m"
  shows "whenReturns targetCaptured (expandCurrent e m)"
proof -
  have named: "sessionsNamed (map (\<lambda>s. s\<lparr> Expanded := False \<rparr>) (sessions m))"
    using assms by (simp add: targetCaptured_def sessionsNamed_collapsed)
  show ?thesis
    using assms named sessionsNamed_elemAt [OF named]
    by (auto simp: expandCurrent_def Let_def targetCaptured_def sessionsNamed_update
          split: option.splits sum.splits)
qed

lemma collapseCurrent_targetCaptured:
  assumes "targetCaptured m"
  shows "whenReturns targetCaptured (map_option (\<lambda>m'. (m', [])) (collapseCurrent e m))"
  using assms sessionsNamed_elemAt [of "sessions m"]
  by (auto simp: collapseCurrent_def Let_def targetCaptured_def sessionsNamed_update
        split: option.splits)

lemma rowTarget_named:
  "sessionsNamed (sessions m) \<Longrightarrow> rowTarget m it = Some t \<Longrightarrow> t \<noteq> []"
  using sessionsNamed_elemAt [of "sessions m"]
  by (auto simp: rowTarget_def split: if_splits option.splits)

lemma confirmKill_targetCaptured:
  assumes "targetCaptured m"
  shows "whenReturns targetCaptured (confirmKill m)"
  using assms rowTarget_named [of m]
  by (auto simp: confirmKill_def Let_def targetCaptured_def split: option.splits)

lemma killCurrent_targetCaptured:
  assumes "targetCaptured m"
  shows "whenReturns targetCaptured (killCurrent e m b)"
  using assms
  by (auto simp: killCurrent_def Let_def targetCaptured_def killDone_def split: option.splits)

lemma createSession_targetCaptured:
  assumes "targetCaptured m" "mode m = ModeCreate"
  shows "whenReturns targetCaptured (createSession e m n)"
  using assms
  by (auto simp: createSession_def Let_def targetCaptured_def split: option.splits)

lemma handleNormalMode_targetCaptured:
  assumes "targetCaptured m" "mode m = ModeNormal"
  shows "whenReturns targetCaptured (handleNormalMode e m k)"
proof -
  have plain: "\<And>m'. sameKill m m' \<Longrightarrow> targetCaptured m'"
    using assms(1) by (rule targetCaptured_sameKill)
  have create: "\<And>i. targetCaptured (m\<lparr> mode := ModeCreate, filter_text := [], input := i \<rparr>)"
    using assms(1) by (simp add: targetCaptured_def)
  show ?thesis
    using assms(1)
    by (simp add: handleNormalMode_def plain create expandCurrent_targetCaptured
          collapseCurrent_targetCaptured confirmKill_targetCaptured
          whenReturns_sameKill [OF _ handleJump_sameKill]
          whenReturns_sameKill [OF _ selectCurrent_sameKill])
qed

lemma handleConfirmKillMode_targetCaptured:
  assumes "targetCaptured m"
  shows "whenReturns targetCaptured (handleConfirmKillMode e m k)"
  using assms
  by (auto simp: handleConfirmKillMode_def killCurrent_targetCaptured targetCaptured_def)

lemma handleCreateMode_targetCaptured:
  assumes "targetCaptured m" "mode m = ModeCreate"
  shows "whenReturns targetCaptured (handleCreateMode e m k)"
  using assms
  by (auto simp: handleCreateMode_def Let_def createSession_targetCaptured targetCaptured_def
        split: prod.splits)

lemma Update_targetCaptured:
  assumes "targetCaptured m" and "\<forall>ss. msg = SessionsMsg ss \<longrightarrow> sessionsNamed ss"
  shows "whenReturns targetCaptured (Update e m msg)"
proof (cases msg)
  case (KeyPress k)
  then show ?thesis
    using assms(1)
    by (cases "mode m")
       (simp_all add: Update_def handleKey_def handleNormalMode_targetCaptured
          handleConfirmKillMode_targetCaptured handleCreateMode_targetCaptured)
next
  case (SessionsMsg ss)
  with assms show ?thesis
    by (simp add: Update_def Let_def targetCaptured_def loadClaudeStatuses_def
          calculateColumnWidths_def)
next
  case (ErrMsg err)
  with assms(1) show ?thesis by (simp add: Update_def targetCaptured_def)
next
  case ClearMessageMsg
  with assms(1) show ?thesis by (simp add: Update_def targetCaptured_def)
next
  case (OtherMsg n)
  with assms(1) show ?thesis by (auto simp: Update_def targetCaptured_def split: prod.splits)
qed

lemma targetCaptured_New: "targetCaptured (New cur cfg)"
  by (simp add: targetCaptured_def sessionsNamed_def New_def)

text \<open>
  In Confirm mode a kill target is always held. The mode is entered only by \<open>confirmKill\<close>,
  which stores the target first, and the target is cleared only on leaving the mode; the
  target of a row is not empty when the sessions have names. So, after any events from the
  initial model in which every data-fetch result lists named sessions, Confirm mode comes
  with a non-empty \<open>killTarget\<close>: a confirmation with no target captured does not arise.
\<close>

lemma confirm_mode_holds_target:
  assumes "list_all (\<lambda>ev. \<forall>ss. snd ev = SessionsMsg ss \<longrightarrow> sessionsNamed ss) evs"
    and "run (New cur cfg) evs = Some m" and "mode m = ModeConfirmKill"
  shows "killTarget m \<noteq> []"
proof -
  have "targetCaptured m0 \<Longrightarrow> run m0 evs = Some m \<Longrightarrow> targetCaptured m" for m0
    using assms(1)
  proof (induction evs arbitrary: m0)
    case Nil
    then show ?case by simp
  next
    case (Cons ev evs)
    from Cons.prems(2) obtain r where r: "Update (fst ev) m0 (snd ev) = Some r" "run (fst r) evs = Some m"
      by (auto split: option.splits)
    from Cons.prems(3) have "\<forall>ss. snd ev = SessionsMsg ss \<longrightarrow> sessionsNamed ss" by simp
    with Cons.prems(1) r(1) have "targetCaptured (fst r)"
      using Update_targetCaptured [of m0 "snd ev" "fst ev"] by (simp add: whenReturns_def)
    with Cons.IH [of "fst r"] r(2) Cons.prems(3) show ?case by simp
  qed
  with targetCaptured_New assms(2) have "targetCaptured m" by blast
  with assms(3) show ?thesis by (simp add: targetCaptured_def)
qed

text \<open>
  Claim C8. Collapsing a session that is already collapsed changes nothing and issues no
  command; confirming a kill with no target captured changes nothing and issues no kill
  command. Where the rows are up to date the collapse does change nothing
  (\<open>idle_collapse_and_confirm\<close>), and a confirmation with no target captured does not arise
  (\<open>confirm_mode_holds_target\<close>). But \<open>collapseCurrent\<close> always rebuilds the rows, and the
  failed expansion of claim C5 leaves them stale. The run below continues that run: the
  cursor is on \<open>beta\<close>, which is collapsed, in Normal mode with an empty filter; collapsing
  \<open>beta\<close> issues no command, and it removes the stale window row of \<open>alpha\<close> and moves the
  cursor from row 2 to row 1.
\<close>

theorem collapsing_a_collapsed_session_changes_stale_rows:
  "map_option (\<lambda>m. (items m, map Expanded (sessions m), cursor m, mode m, filter_text m))
     (run (New [] noConfig) staleRun)
   = Some ([\<lparr> IsSession = True, SessionIndex = 0, WindowIndex = 0 \<rparr>,
            \<lparr> IsSession = False, SessionIndex = 0, WindowIndex = 0 \<rparr>,
            \<lparr> IsSession = True, SessionIndex = 1, WindowIndex = 0 \<rparr>],
           [False, False], 2, ModeNormal, [])
   \<and> map_option (\<lambda>r. (items (fst r), map Expanded (sessions (fst r)), cursor (fst r), snd r))
       (Option.bind (run (New [] noConfig) staleRun)
          (\<lambda>m. Update sampleEnv m (KeyPress (namedKey ''left''))))
   = Some ([\<lparr> IsSession = True, SessionIndex = 0, WindowIndex = 0 \<rparr>,
            \<lparr> IsSession = True, SessionIndex = 1, WindowIndex = 0 \<rparr>],
           [False, False], 1, CmdNil, [])"
  by code_simp

text \<open>
  The rows are stale in a second way. The Create key clears the filter without rebuilding
  the rows: with the filter \<open>b\<close> only \<open>beta\<close> is listed; after the Create key and its
  cancellation the filter is empty and the list still holds \<open>beta\<close> alone. Collapsing
  \<open>beta\<close>, which is collapsed, then brings back all three rows and leaves the cursor on
  \<open>alpha\<close>.
\<close>

lemma collapsing_after_create_changes_stale_rows:
  "map_option (\<lambda>m. (visibleNames m, map Expanded (sessions m), cursor m, mode m, filter_text m))
     (run (New [] noConfig) staleFilterRun)
   = Some ([''beta''], [False, False, False], 0, ModeNormal, [])
   \<and> map_option (\<lambda>r. (visibleNames (fst r), map Expanded (sessions (fst r)), cursor (fst r), snd r))
       (Option.bind (run (New [] noConfig) staleFilterRun)
          (\<lambda>m. Update sampleEnv m (KeyPress (namedKey ''left''))))
   = Some ([''alpha'', ''beta'', ''gamma''], [False, False, False], 0, CmdNil, [])"
  by code_simp

section \<open>C9: editing the filter\<close>




text \<open>
  The claim also lets backspace remove a whole multi-byte character. The filter is a Go
  string and the handler cuts one byte: after typing the two bytes of U+00E9, backspace
  leaves the first byte in the filter.
\<close>

lemma backspace_cuts_one_byte:
  "map_option (\<lambda>r. filter_text (fst r))
     (Update sampleEnv (browsing threeSessions [CHR 0xC3, CHR 0xA9] 0) (KeyPress backspaceKey))
   = Some [CHR 0xC3]"
  by code_simp

section \<open>C10: the kill follows the cursor\<close>

lemma killCurrent_ignores_killTarget:
  "map_option snd (killCurrent e (m\<lparr> killTarget := t \<rparr>) b) = map_option snd (killCurrent e m b)"
  by (simp add: killCurrent_def Let_def split: option.splits)

lemma killCurrent_session_row:
  assumes "0 \<le> cursor m" "cursor m < int (length (items m))"
    "IsSession (items m ! nat (cursor m))"
    "elemAt (sessions m) (SessionIndex (items m ! nat (cursor m))) = Some s"
  shows "\<exists>m'. killCurrent e m b =
           Some (m', Batch [LoadSessions, ClearMessageAfter 5], [KillSessionCall (Name s)])"
  using assms by (simp add: killCurrent_def Let_def)

lemma killCurrent_window_row:
  assumes "0 \<le> cursor m" "cursor m < int (length (items m))"
    "\<not> IsSession (items m ! nat (cursor m))"
    "elemAt (sessions m) (SessionIndex (items m ! nat (cursor m))) = Some s"
    "elemAt (Windows s) (WindowIndex (items m ! nat (cursor m))) = Some w"
  shows "\<exists>m'. killCurrent e m b =
           Some (m', Batch [LoadSessions, ClearMessageAfter 5], [KillWindowCall (Name s) (Index w)])"
  using assms by (simp add: killCurrent_def Let_def)

text \<open>
  Claim C10. The kill issued on confirm is resolved from the row under the cursor at the
  time of the confirmation: the command and the calls of the confirmation are the same
  whatever \<open>killTarget\<close> holds; on a session row the call kills the session of that row, on
  a window row the window of that row. So the target killed can differ from the one named
  in the confirmation message: from the initial model, with \<open>alpha\<close> and \<open>beta\<close> listed,
  a kill is requested on \<open>alpha\<close>; a data-fetch result with the sessions in the other
  order arrives before the confirmation; the message still asks about \<open>alpha\<close>, and the
  confirmation kills \<open>beta\<close>.
\<close>

theorem kill_follows_cursor:
  "(mode m = ModeConfirmKill \<and> Matches k (Confirm (keys e))
     \<longrightarrow> map_option snd (Update e (m\<lparr> killTarget := t \<rparr>) (KeyPress k))
           = map_option snd (Update e m (KeyPress k)))
   \<and> (mode m = ModeConfirmKill \<and> Matches k (Confirm (keys e))
        \<and> 0 \<le> cursor m \<and> cursor m < int (length (items m))
        \<and> elemAt (sessions m) (SessionIndex (items m ! nat (cursor m))) = Some s
     \<longrightarrow> (IsSession (items m ! nat (cursor m))
            \<longrightarrow> (\<exists>m'. Update e m (KeyPress k) =
                   Some (m', Batch [LoadSessions, ClearMessageAfter 5], [KillSessionCall (Name s)])))
         \<and> (\<not> IsSession (items m ! nat (cursor m))
              \<and> elemAt (Windows s) (WindowIndex (items m ! nat (cursor m))) = Some w
            \<longrightarrow> (\<exists>m'. Update e m (KeyPress k) =
                   Some (m', Batch [LoadSessions, ClearMessageAfter 5],
                         [KillWindowCall (Name s) (Index w)]))))
   \<and> map_option
        (\<lambda>m. (mode m, killTarget m, message m,
              map_option snd (Update sampleEnv m (KeyPress (runeKey ''y'')))))
        (run (New [] noConfig) swapRun)
      = Some (ModeConfirmKill, ''alpha'', ''Kill '' @ [CHR 0x22] @ ''alpha'' @ [CHR 0x22] @ ''?'',
              Some (Batch [LoadSessions, ClearMessageAfter 5], [KillSessionCall ''beta'']))"
proof (intro conjI impI)
  assume "mode m = ModeConfirmKill \<and> Matches k (Confirm (keys e))"
  then show "map_option snd (Update e (m\<lparr> killTarget := t \<rparr>) (KeyPress k))
           = map_option snd (Update e m (KeyPress k))"
    by (simp add: confirm_key killCurrent_ignores_killTarget)
next
  assume "mode m = ModeConfirmKill \<and> Matches k (Confirm (keys e))
        \<and> 0 \<le> cursor m \<and> cursor m < int (length (items m))
        \<and> elemAt (sessions m) (SessionIndex (items m ! nat (cursor m))) = Some s"
    and "IsSession (items m ! nat (cursor m))"
  then show "\<exists>m'. Update e m (KeyPress k) =
                   Some (m', Batch [LoadSessions, ClearMessageAfter 5], [KillSessionCall (Name s)])"
    using killCurrent_session_row [of m s e False] by (simp add: confirm_key)
next
  assume "mode m = ModeConfirmKill \<and> Matches k (Confirm (keys e))
        \<and> 0 \<le> cursor m \<and> cursor m < int (length (items m))
        \<and> elemAt (sessions m) (SessionIndex (items m ! nat (cursor m))) = Some s"
    and "\<not> IsSession (items m ! nat (cursor m))
              \<and> elemAt (Windows s) (WindowIndex (items m ! nat (cursor m))) = Some w"
  then show "\<exists>m'. Update e m (KeyPress k) =
                   Some (m', Batch [LoadSessions, ClearMessageAfter 5],
                         [KillWindowCall (Name s) (Index w)])"
    using killCurrent_window_row [of m s w e False] by (simp add: confirm_key)
next
  show "map_option
        (\<lambda>m. (mode m, killTarget m, message m,
              map_option snd (Update sampleEnv m (KeyPress (runeKey ''y'')))))
        (run (New [] noConfig) swapRun)
      = Some (ModeConfirmKill, ''alpha'', ''Kill '' @ [CHR 0x22] @ ''alpha'' @ [CHR 0x22] @ ''?'',
              Some (Batch [LoadSessions, ClearMessageAfter 5], [KillSessionCall ''beta'']))"
    by code_simp
qed

text \<open>
  An instance: \<open>alpha\<close> is expanded with two windows, \<open>beta\<close> follows, and \<open>killTarget\<close>
  names \<open>beta\<close>. With the cursor on the first window of \<open>alpha\<close> the confirmation kills that
  window; with the cursor on \<open>beta\<close> it kills \<open>beta\<close>; another \<open>killTarget\<close> changes
  nothing.
\<close>

theorem kill_follows_cursor_witness:
  "map_option snd (Update sampleEnv ((confirming 1 ''beta'')\<lparr> killTarget := ''gamma'' \<rparr>)
                     (KeyPress (runeKey ''y'')))
     = map_option snd (Update sampleEnv (confirming 1 ''beta'') (KeyPress (runeKey ''y'')))
   \<and> (\<exists>m'. Update sampleEnv (confirming 3 ''beta'') (KeyPress (runeKey ''y'')) =
          Some (m', Batch [LoadSessions, ClearMessageAfter 5], [KillSessionCall ''beta'']))
   \<and> (\<exists>m'. Update sampleEnv (confirming 1 ''beta'') (KeyPress (runeKey ''y'')) =
          Some (m', Batch [LoadSessions, ClearMessageAfter 5], [KillWindowCall ''alpha'' 1]))"
proof -
  let ?k = "runeKey ''y''"
  have key: "Matches ?k (Confirm (keys sampleEnv))"
    by (simp add: sample_keys sampleKeys_def)
  have on_window: "0 \<le> cursor (confirming 1 ''beta'')
      \<and> cursor (confirming 1 ''beta'') < int (length (items (confirming 1 ''beta'')))
      \<and> elemAt (sessions (confirming 1 ''beta''))
           (SessionIndex (items (confirming 1 ''beta'') ! nat (cursor (confirming 1 ''beta''))))
         = Some (mkSession ''alpha'' True [mkWindow 1 ''edit'', mkWindow 2 ''run''])
      \<and> \<not> IsSession (items (confirming 1 ''beta'') ! nat (cursor (confirming 1 ''beta'')))
      \<and> elemAt (Windows (mkSession ''alpha'' True [mkWindow 1 ''edit'', mkWindow 2 ''run'']))
           (WindowIndex (items (confirming 1 ''beta'') ! nat (cursor (confirming 1 ''beta''))))
         = Some (mkWindow 1 ''edit'')"
    unfolding confirming_rows by (simp add: elemAt_def twoSessions_def mkSession_def)
  have on_session: "0 \<le> cursor (confirming 3 ''beta'')
      \<and> cursor (confirming 3 ''beta'') < int (length (items (confirming 3 ''beta'')))
      \<and> elemAt (sessions (confirming 3 ''beta''))
           (SessionIndex (items (confirming 3 ''beta'') ! nat (cursor (confirming 3 ''beta''))))
         = Some (mkSession ''beta'' False [])
      \<and> IsSession (items (confirming 3 ''beta'') ! nat (cursor (confirming 3 ''beta'')))"
    unfolding confirming_rows by (simp add: elemAt_def twoSessions_def)
  have names: "Name (mkSession ''beta'' False []) = ''beta''"
    "Name (mkSession ''alpha'' True [mkWindow 1 ''edit'', mkWindow 2 ''run'']) = ''alpha''"
    "Index (mkWindow 1 ''edit'') = 1"
    by (simp_all add: mkSession_def mkWindow_def)
  have a: "map_option snd (Update sampleEnv ((confirming 1 ''beta'')\<lparr> killTarget := ''gamma'' \<rparr>)
                     (KeyPress ?k))
     = map_option snd (Update sampleEnv (confirming 1 ''beta'') (KeyPress ?k))"
    using kill_follows_cursor [of "confirming 1 ''beta''" ?k sampleEnv "''gamma''"] key
    by (simp add: confirming_rows)
  have b: "\<exists>m'. Update sampleEnv (confirming 3 ''beta'') (KeyPress ?k) =
          Some (m', Batch [LoadSessions, ClearMessageAfter 5], [KillSessionCall ''beta''])"
    using kill_follows_cursor [of "confirming 3 ''beta''" ?k sampleEnv _ "mkSession ''beta'' False []"]
      key on_session confirming_rows(3) [of 3 "''beta''"] names
    by metis
  have c: "\<exists>m'. Update sampleEnv (confirming 1 ''beta'') (KeyPress ?k) =
          Some (m', Batch [LoadSessions, ClearMessageAfter 5], [KillWindowCall ''alpha'' 1])"
    using kill_follows_cursor [of "confirming 1 ''beta''" ?k sampleEnv _
        "mkSession ''alpha'' True [mkWindow 1 ''edit'', mkWindow 2 ''run'']" "mkWindow 1 ''edit''"]
      key on_window confirming_rows(3) [of 1 "''beta''"] names
    by metis
  from a b c show ?thesis by blast
qed

end
